theory Spec2Isabelle
  imports Main "HOL-Library.Word"
begin

section \<open>Data model\<close>

text \<open>
  Python strings are sequences of Unicode code points; a string is modelled as the list
  of its code points, so that \<open>startswith\<close>, slicing and \<open>strip\<close> count the
  characters Python counts.
\<close>

type_synonym ustring = "nat list"

text \<open>
  A volume number. pandas reads a column of integers as dtype int64, and the arithmetic
  of the lookup on its values is that of numpy.int64: a 64-bit word, read as a signed
  number by \<open>sint\<close>. The volume of a file, parsed from its name, is taken in the same
  range. A \<open>no\<close> column with a blank cell would be read as float64; such a frame is
  outside this model, as it is outside the spec's integer volumes.
\<close>

type_synonym int64 = "64 word"

text \<open>
  One row of the control frame (\<open>control_df\<close>): the columns \<open>no\<close>, \<open>section\<close>
  (here \<open>section_col\<close>) and \<open>disease_content\<close>. A missing cell is NaN in the
  frame; for \<open>disease_content\<close> it is \<open>None\<close>, the value \<open>pd.isna\<close> tests for.
  The frame is the list of its rows in table order.
\<close>

record control_record =
  no :: int64
  section_col :: ustring
  disease_content :: "ustring option"

type_synonym control_df = "control_record list"


datatype py_error = ValueError

text \<open>
  What the lookup of one task settles before the content is tested: the fallback level
  (0 exact, 1 same volume, 2 nearest volume, as the server's log lines and counters name
  them), the volume and section whose row was taken, and that row's \<open>disease_content\<close>
  cell.
\<close>

record resolution_result =
  usedFallbackLevel :: nat
  actualVolumeUsed :: int64
  actualSectionUsed :: ustring
  contextParagraph :: "ustring option"

section \<open>Context resolver\<close>

text \<open>\<open>control_df['no'].unique()\<close>: the distinct values in order of first appearance.\<close>

definition unique :: "'a list \<Rightarrow> 'a list" where
  "unique xs = rev (remdups (rev xs))"

text \<open>
  Python's \<open>min(xs, key=f)\<close>: raises ValueError on an empty sequence; otherwise scans
  from the left and replaces the best element only by a strictly smaller key, so the
  first minimal element wins.
\<close>

fun py_min_key :: "('a \<Rightarrow> int) \<Rightarrow> 'a list \<Rightarrow> py_error + 'a" where
  "py_min_key key [] = Inl ValueError"
| "py_min_key key (x # xs) =
     Inr (foldl (\<lambda>best item. if key item < key best then item else best) x xs)"

text \<open>\<open>sorted(control_df['no'].unique())\<close>: ascending as signed numbers.\<close>

definition available_volumes :: "control_df \<Rightarrow> int64 list" where
  "available_volumes df = sort_key sint (unique (map no df))"

text \<open>
  \<open>abs\<close> on numpy.int64: the negation wraps, so the absolute value of \<open>- 2 ^ 63\<close> is
  \<open>- 2 ^ 63\<close> itself.
\<close>

definition int64_abs :: "int64 \<Rightarrow> int64" where
  "int64_abs d = (if sint d < 0 then - d else d)"

text \<open>
  The key \<open>lambda x: abs(x - volume_no)\<close>: \<open>x\<close> is a numpy.int64, so the difference
  and its absolute value are computed in 64 bits and wrap; keys are compared as signed
  numbers.
\<close>

definition volume_distance :: "int64 \<Rightarrow> int64 \<Rightarrow> int" where
  "volume_distance volume_no x = sint (int64_abs (x - volume_no))"

text \<open>\<open>min(available_volumes, key=lambda x: abs(x - volume_no))\<close>\<close>

definition nearest_volume :: "control_df \<Rightarrow> int64 \<Rightarrow> py_error + int64" where
  "nearest_volume df volume_no = py_min_key (volume_distance volume_no) (available_volumes df)"

text \<open>
  The rows of the nearest volume, first one taken (\<open>nearest_fallback.iloc[[0]]\<close>); an
  empty selection is the \<open>continue\<close> of both programs (\<open>None\<close>).
\<close>

definition nearest_fallback :: "control_df \<Rightarrow> int64 \<Rightarrow> resolution_result option" where
  "nearest_fallback df nearest =
     (case filter (\<lambda>r. no r = nearest) df of
        [] \<Rightarrow> None
      | r # _ \<Rightarrow> Some \<lparr>usedFallbackLevel = 2, actualVolumeUsed = nearest,
                       actualSectionUsed = section_col r,
                       contextParagraph = disease_content r\<rparr>)"

text \<open>
  The lookup of \<open>main\<close> in translation\_disaese.py (lines 193 to 229). The list of
  volumes is tested before \<open>min\<close> is called (\<open>if available_volumes:\<close>).
\<close>

definition resolve_script ::
  "control_df \<Rightarrow> int64 \<Rightarrow> ustring \<Rightarrow> py_error + resolution_result option" where
  "resolve_script df volume_no sec =
     (case filter (\<lambda>r. no r = volume_no \<and> section_col r = sec) df of
        r # _ \<Rightarrow> Inr (Some \<lparr>usedFallbackLevel = 0, actualVolumeUsed = volume_no,
                              actualSectionUsed = sec,
                              contextParagraph = disease_content r\<rparr>)
      | [] \<Rightarrow>
         (case filter (\<lambda>r. no r = volume_no) df of
            r # _ \<Rightarrow> Inr (Some \<lparr>usedFallbackLevel = 1, actualVolumeUsed = volume_no,
                                  actualSectionUsed = section_col r,
                                  contextParagraph = disease_content r\<rparr>)
          | [] \<Rightarrow>
             (if available_volumes df \<noteq> [] then
                (case nearest_volume df volume_no of
                   Inl e \<Rightarrow> Inl e
                 | Inr nearest \<Rightarrow> Inr (nearest_fallback df nearest))
              else Inr None)))"

text \<open>
  The lookup of \<open>_process_file_core_translation\<close> in disaese\_server.py (lines 331 to
  365). Here \<open>min\<close> is called on the list of volumes without a test.
\<close>

definition resolve_server ::
  "control_df \<Rightarrow> int64 \<Rightarrow> ustring \<Rightarrow> py_error + resolution_result option" where
  "resolve_server df volume_no sec =
     (case filter (\<lambda>r. no r = volume_no \<and> section_col r = sec) df of
        r # _ \<Rightarrow> Inr (Some \<lparr>usedFallbackLevel = 0, actualVolumeUsed = volume_no,
                              actualSectionUsed = sec,
                              contextParagraph = disease_content r\<rparr>)
      | [] \<Rightarrow>
         (case filter (\<lambda>r. no r = volume_no) df of
            r # _ \<Rightarrow> Inr (Some \<lparr>usedFallbackLevel = 1, actualVolumeUsed = volume_no,
                                  actualSectionUsed = section_col r,
                                  contextParagraph = disease_content r\<rparr>)
          | [] \<Rightarrow>
             (case nearest_volume df volume_no of
                Inl e \<Rightarrow> Inl e
              | Inr nearest \<Rightarrow> Inr (nearest_fallback df nearest))))"

section \<open>Strings\<close>

text \<open>
  The characters \<open>str.strip()\<close> removes: those for which \<open>str.isspace\<close> holds.
\<close>

definition is_space :: "nat \<Rightarrow> bool" where
  "is_space c \<longleftrightarrow>
     (9 \<le> c \<and> c \<le> 13) \<or> (28 \<le> c \<and> c \<le> 32) \<or> c = 133 \<or> c = 160 \<or> c = 5760 \<or>
     (8192 \<le> c \<and> c \<le> 8202) \<or> c = 8232 \<or> c = 8233 \<or> c = 8239 \<or> c = 8287 \<or> c = 12288"

definition strip :: "ustring \<Rightarrow> ustring" where
  "strip s = rev (dropWhile is_space (rev (dropWhile is_space s)))"

definition startswith :: "ustring \<Rightarrow> ustring \<Rightarrow> bool" where
  "startswith s p \<longleftrightarrow> take (length p) s = p"

text \<open>
  Lines 318 to 324 of disaese\_server.py: a leading U+6CBB U+7642 loses two characters,
  otherwise a leading U+6CBB loses one. \<open>term\<close> is a keyword here, hence \<open>trm\<close>.
\<close>

definition remove_leading :: "ustring \<Rightarrow> ustring" where
  "remove_leading trm =
     (if trm \<noteq> [] \<and> startswith trm [27835, 30274] then drop 2 trm
      else if trm \<noteq> [] \<and> startswith trm [27835] then drop 1 trm
      else trm)"

section \<open>Prompt budgeter\<close>

text \<open>
  The tokenizer is loaded from the model path, outside the repository: it is a parameter.
  \<open>encode\<close> is \<open>tokenizer.encode(text)\<close>, \<open>decode\<close> is
  \<open>tokenizer.decode(ids, skip_special_tokens=True)\<close>.
\<close>

record tokenizer =
  encode :: "ustring \<Rightarrow> nat list"
  decode :: "nat list \<Rightarrow> ustring"

text \<open>The slice \<open>xs[:n]\<close>: a negative \<open>n\<close> counts from the end.\<close>

definition py_slice_to :: "'a list \<Rightarrow> int \<Rightarrow> 'a list" where
  "py_slice_to xs n = (if 0 \<le> n then take (nat n) xs else take (length xs - nat (- n)) xs)"

text \<open>
  \<open>truncate_context_if_needed\<close> of both programs. \<open>base_prompt\<close> renders the prompt
  around an empty context for a term and \<open>max_tokens\<close> is the budget; the first
  component of the result is the warning printed on truncation, with the two token
  counts it shows.
\<close>

definition truncate_context_if_needed ::
  "tokenizer \<Rightarrow> (ustring \<Rightarrow> ustring) \<Rightarrow> int \<Rightarrow> ustring \<Rightarrow> ustring \<Rightarrow> (int \<times> int) option \<times> ustring" where
  "truncate_context_if_needed tok base_prompt max_tokens context_paragraph trm =
     (let base_tokens = int (length (encode tok (base_prompt trm)));
          available_tokens = max_tokens - base_tokens;
          context_tokens = int (length (encode tok context_paragraph))
      in if context_tokens \<le> available_tokens then (None, context_paragraph)
         else (let context_token_ids = encode tok context_paragraph;
                   truncated_token_ids = py_slice_to context_token_ids available_tokens
               in (Some (context_tokens, available_tokens), decode tok truncated_token_ids)))"

text \<open>The prompt text of translation\_disaese.py, as code points.\<close>

definition script_prompt_head :: ustring where
  "script_prompt_head =
     [25105, 26371, 20808, 25552, 20379, 19968, 27573, 21443, 32771, 19978, 19979, 25991,
      65292, 35531, 20320, 20808, 29702, 35299, 23427, 12290, 28982, 24460, 65292, 25105,
      26371, 32102, 20320, 19968, 27573, 20013, 37291, 25991, 26412, 65292, 35531, 20320,
      26681, 25818, 19978, 19979, 25991, 30340, 39080, 26684, 21644, 30693, 35672, 65292,
      23559, 25991, 26412, 32763, 35695, 25104, 30333, 35441, 25991, 12290, 10, 10, 45, 45,
      45, 32, 19978, 19979, 25991, 38283, 22987, 32, 45, 45, 45, 10]"

definition script_prompt_mid :: ustring where
  "script_prompt_mid =
     [45, 45, 45, 32, 19978, 19979, 25991, 32080, 26463, 32, 45, 45, 45, 10, 10, 29694,
      22312, 65292, 35531, 23559, 20197, 19979, 36889, 27573, 25991, 26412, 26681, 25818,
      19978, 25991, 32763, 35695, 25104, 30333, 35441, 25991, 65292, 35531, 21482, 36664,
      20986, 32763, 35695, 32080, 26524, 23601, 22909, 65306, 10, 12300]"

definition script_prompt_tail :: ustring where
  "script_prompt_tail = [12301]"

text \<open>\<open>base_prompt\<close> (lines 56 to 62) and \<open>full_prompt\<close> (lines 237 to 244).\<close>

definition script_base_prompt :: "ustring \<Rightarrow> ustring" where
  "script_base_prompt trm = script_prompt_head @ script_prompt_mid @ trm @ script_prompt_tail"

definition script_full_prompt :: "ustring \<Rightarrow> ustring \<Rightarrow> ustring" where
  "script_full_prompt truncated_context trm =
     script_prompt_head @ truncated_context @ [10] @ script_prompt_mid @ trm @ script_prompt_tail"

text \<open>The default \<open>max_tokens\<close> of translation\_disaese.py, which \<open>main\<close> never overrides.\<close>

definition script_max_tokens :: int where
  "script_max_tokens = 3800"

text \<open>
  The part of config.yaml the server's translation step reads: \<open>max_context_tokens\<close>,
  \<open>max_sequence_length\<close> and \<open>prompt_template\<close>, the latter as the function
  \<open>prompt_template.format(context_paragraph=c, term=t)\<close>.
\<close>

record translation_config =
  max_context_tokens :: int
  max_sequence_length :: int
  prompt_template :: "ustring \<Rightarrow> ustring \<Rightarrow> ustring"

section \<open>Generation step\<close>

text \<open>
  The warnings and errors a run reports and the calls it makes to the budgeter and to
  the generation step, in order.
\<close>

datatype event =
    FallbackWarning nat int64 ustring
  | NoContextError
  | EmptyContextWarning
  | BudgeterCall ustring ustring
  | TruncationWarning int int
  | GenerateCall ustring
  | SequenceLengthWarning int int
  | GenerationError ustring
  | FileError py_error

text \<open>
  The model and its chat template are loaded from outside the repository: parameters.
  \<open>apply_chat_template\<close> gives the input ids of the prompt, \<open>generate\<close> the output
  ids, which begin with the input ids; \<open>Inl msg\<close> is an exception whose \<open>str\<close> is
  \<open>msg\<close>.
\<close>

record generation_service =
  apply_chat_template :: "ustring \<Rightarrow> ustring + nat list"
  generate :: "nat list \<Rightarrow> ustring + nat list"

text \<open>
  \<open>execute_translation_prompt\<close> of both programs: a sequence longer than \<open>limit\<close> is
  reported and generated from all the same; any exception is reported and answered
  with the text \<open>failure\<close> makes of it. The first component is what the step reports.
\<close>

definition execute_translation_prompt ::
  "tokenizer \<Rightarrow> generation_service \<Rightarrow> int \<Rightarrow> (ustring \<Rightarrow> ustring) \<Rightarrow> ustring \<Rightarrow>
   event list \<times> ustring" where
  "execute_translation_prompt tok svc limit failure full_prompt =
     (case apply_chat_template svc full_prompt of
        Inl msg \<Rightarrow> ([GenerationError msg], failure msg)
      | Inr input_ids \<Rightarrow>
         (let sequence_length = int (length input_ids);
              warned = (if sequence_length > limit
                        then [SequenceLengthWarning sequence_length limit] else [])
          in case generate svc input_ids of
               Inl msg \<Rightarrow> (warned @ [GenerationError msg], failure msg)
             | Inr outputs \<Rightarrow>
                 (warned, strip (decode tok (drop (length input_ids) outputs)))))"

text \<open>The text both programs return when generation fails, as code points.\<close>

definition failure_text :: ustring where
  "failure_text = [32763, 35695, 22833, 25943, 65306, 27169, 22411, 34389, 29702, 37679, 35492]"

text \<open>The script's step: the limit is 4096 and the failure text is fixed.\<close>

definition script_execute_translation_prompt ::
  "tokenizer \<Rightarrow> generation_service \<Rightarrow> ustring \<Rightarrow> event list \<times> ustring" where
  "script_execute_translation_prompt tok svc =
     execute_translation_prompt tok svc 4096 (\<lambda>msg. failure_text)"

text \<open>
  The server's step: the limit is \<open>max_sequence_length\<close> and the failure text ends with
  the exception's message.
\<close>

definition server_execute_translation_prompt ::
  "tokenizer \<Rightarrow> generation_service \<Rightarrow> translation_config \<Rightarrow> ustring \<Rightarrow> event list \<times> ustring" where
  "server_execute_translation_prompt tok svc cfg =
     execute_translation_prompt tok svc (max_sequence_length cfg)
       (\<lambda>msg. failure_text @ [32, 45, 32] @ msg)"

section \<open>Processing one task\<close>

text \<open>
  An output row: the columns 'volume number', 'section', 'original text' and
  'translation' of both programs; the script adds 'fallback used' and 'actual section'.
\<close>

record translation_record =
  col_volume :: int64
  col_section :: ustring
  col_original_text :: ustring
  col_translation :: ustring

record script_record = translation_record +
  col_fallback_used :: bool
  col_actual_section :: ustring

record script_state =
  script_results :: "script_record list"
  script_events :: "event list"

record server_state =
  translation_results :: "translation_record list"
  fallback_used :: bool
  actual_volume_used :: int64
  fallback_level1_count :: nat
  fallback_level2_count :: nat
  events :: "event list"

definition truncation_events :: "(int \<times> int) option \<Rightarrow> event list" where
  "truncation_events w = (case w of None \<Rightarrow> [] | Some (c, a) \<Rightarrow> [TruncationWarning c a])"

text \<open>
  Lines 234 to 255 of translation\_disaese.py: the context is handed to the budgeter,
  the prompt is built, the generation step is called and the record appended.
\<close>

definition script_translate ::
  "tokenizer \<Rightarrow> generation_service \<Rightarrow> int64 \<Rightarrow> ustring \<Rightarrow> ustring \<Rightarrow> bool \<Rightarrow> ustring \<Rightarrow>
   ustring \<Rightarrow> script_state \<Rightarrow> script_state" where
  "script_translate tok svc volume_no sec trm used actual_section_used context_paragraph st =
     (case truncate_context_if_needed tok script_base_prompt script_max_tokens
             context_paragraph trm of
        (w, truncated_context) \<Rightarrow>
          (let full_prompt = script_full_prompt truncated_context trm
           in case script_execute_translation_prompt tok svc full_prompt of
                (reported, translated_text) \<Rightarrow>
                  \<lparr>script_results = script_results st @
                     [\<lparr>col_volume = volume_no, col_section = sec,
                       col_original_text = trm,
                       col_translation = translated_text,
                       col_fallback_used = used,
                       col_actual_section = (if used then actual_section_used else sec)\<rparr>],
                   script_events = script_events st @ [BudgeterCall context_paragraph trm] @
                     truncation_events w @ [GenerateCall full_prompt] @ reported\<rparr>))"

text \<open>
  The body of the row loop of \<open>main\<close> in translation\_disaese.py (lines 185 to 255) for
  one row with its term and section; \<open>Inr st\<close> with \<open>st\<close> unchanged in its results is a
  \<open>continue\<close>.
\<close>

definition script_row ::
  "tokenizer \<Rightarrow> generation_service \<Rightarrow> control_df \<Rightarrow> int64 \<Rightarrow> ustring \<times> ustring \<Rightarrow>
   script_state \<Rightarrow> py_error + script_state" where
  "script_row tok svc df volume_no row st =
     (case row of (trm, sec) \<Rightarrow>
        if strip trm = [] \<or> strip sec = [] then Inr st
        else
          (case resolve_script df volume_no sec of
             Inl e \<Rightarrow> Inl e
           | Inr None \<Rightarrow> Inr (st\<lparr>script_events := script_events st @ [NoContextError]\<rparr>)
           | Inr (Some res) \<Rightarrow>
              (let used = (usedFallbackLevel res \<noteq> 0);
                   st1 = st\<lparr>script_events := script_events st @
                     (if used
                      then [FallbackWarning (usedFallbackLevel res) (actualVolumeUsed res)
                              (actualSectionUsed res)]
                      else [])\<rparr>
               in case contextParagraph res of
                    None \<Rightarrow> Inr (st1\<lparr>script_events := script_events st1 @ [EmptyContextWarning]\<rparr>)
                  | Some c \<Rightarrow>
                      Inr (script_translate tok svc volume_no sec trm used
                             (actualSectionUsed res) c st1))))"

text \<open>
  Lines 346 to 348 and 357 to 360 of disaese\_server.py: what the server records when a
  fallback is taken.
\<close>

definition note_fallback :: "resolution_result \<Rightarrow> server_state \<Rightarrow> server_state" where
  "note_fallback res st =
     (if usedFallbackLevel res = 1 then
        st\<lparr>fallback_used := True,
           fallback_level1_count := fallback_level1_count st + 1,
           events := events st @ [FallbackWarning 1 (actualVolumeUsed res) (actualSectionUsed res)]\<rparr>
      else if usedFallbackLevel res = 2 then
        st\<lparr>actual_volume_used := actualVolumeUsed res,
           fallback_used := True,
           fallback_level2_count := fallback_level2_count st + 1,
           events := events st @ [FallbackWarning 2 (actualVolumeUsed res) (actualSectionUsed res)]\<rparr>
      else st)"

text \<open>Lines 370 to 389 of disaese\_server.py.\<close>

definition server_translate ::
  "tokenizer \<Rightarrow> generation_service \<Rightarrow> translation_config \<Rightarrow> int64 \<Rightarrow> ustring \<Rightarrow> ustring \<Rightarrow>
   ustring \<Rightarrow> server_state \<Rightarrow> server_state" where
  "server_translate tok svc cfg volume_no sec trm context_paragraph st =
     (case truncate_context_if_needed tok (prompt_template cfg []) (max_context_tokens cfg)
             context_paragraph trm of
        (w, truncated_context) \<Rightarrow>
          (let full_prompt = prompt_template cfg truncated_context trm
           in case server_execute_translation_prompt tok svc cfg full_prompt of
                (reported, translated_text) \<Rightarrow>
                  st\<lparr>translation_results := translation_results st @
                        [\<lparr>col_volume = volume_no, col_section = sec,
                          col_original_text = trm,
                          col_translation = translated_text\<rparr>],
                     events := events st @ [BudgeterCall context_paragraph trm] @
                        truncation_events w @ [GenerateCall full_prompt] @ reported\<rparr>))"

text \<open>
  The body of the row loop of \<open>_process_file_core_translation\<close> in disaese\_server.py
  (lines 315 to 389).
\<close>

definition server_row ::
  "tokenizer \<Rightarrow> generation_service \<Rightarrow> translation_config \<Rightarrow> control_df \<Rightarrow> int64 \<Rightarrow>
   ustring \<times> ustring \<Rightarrow> server_state \<Rightarrow> py_error + server_state" where
  "server_row tok svc cfg df volume_no row st =
     (case row of (trm0, sec) \<Rightarrow>
        (let trm = remove_leading trm0
         in if strip trm = [] \<or> strip sec = [] then Inr st
            else
              (case resolve_server df volume_no sec of
                 Inl e \<Rightarrow> Inl e
               | Inr None \<Rightarrow> Inr (st\<lparr>events := events st @ [NoContextError]\<rparr>)
               | Inr (Some res) \<Rightarrow>
                  (let st1 = note_fallback res st
                   in case contextParagraph res of
                        None \<Rightarrow> Inr (st1\<lparr>events := events st1 @ [EmptyContextWarning]\<rparr>)
                      | Some c \<Rightarrow>
                          Inr (server_translate tok svc cfg volume_no sec trm c st1)))))"

section \<open>Files and the batch\<close>

text \<open>
  A row of a target sheet with its \<open>disease\<close> and \<open>section\<close> cells (\<open>None\<close> is NaN);
  \<open>valid_rows\<close> keeps the rows where both are present.
\<close>

record target_row =
  disease :: "ustring option"
  section_cell :: "ustring option"

definition valid_rows :: "target_row list \<Rightarrow> (ustring \<times> ustring) list" where
  "valid_rows target_df =
     List.map_filter
       (\<lambda>r. case (disease r, section_cell r) of (Some t, Some s) \<Rightarrow> Some (t, s) | _ \<Rightarrow> None)
       target_df"

text \<open>
  A \<open>for\<close> loop over rows whose body may raise: the exception, if any, and the state
  reached before it.
\<close>

fun run_rows :: "('r \<Rightarrow> 's \<Rightarrow> py_error + 's) \<Rightarrow> 'r list \<Rightarrow> 's \<Rightarrow> py_error option \<times> 's" where
  "run_rows body [] st = (None, st)"
| "run_rows body (r # rs) st =
     (case body r st of Inl e \<Rightarrow> (Some e, st) | Inr st' \<Rightarrow> run_rows body rs st')"

text \<open>
  Step 3 of \<open>main\<close> in translation\_disaese.py (lines 158 to 160): the control frame is
  cut down to the rows whose volume has a target file. \<open>files\<close> are the items of
  \<open>target_files_map\<close> with their sheets.
\<close>

definition script_control_df :: "(int64 \<times> target_row list) list \<Rightarrow> control_df \<Rightarrow> control_df" where
  "script_control_df files control_file = filter (\<lambda>r. no r \<in> set (map fst files)) control_file"

text \<open>
  Step 4: every file is processed inside its own \<open>try\<close>, whose handler prints the
  error and goes on to the next file.
\<close>

definition script_file ::
  "tokenizer \<Rightarrow> generation_service \<Rightarrow> control_df \<Rightarrow> script_state \<Rightarrow> int64 \<times> target_row list \<Rightarrow>
   script_state" where
  "script_file tok svc df st file =
     (case file of (volume_no, target_df) \<Rightarrow>
        (case run_rows (script_row tok svc df volume_no) (valid_rows target_df) st of
           (None, st') \<Rightarrow> st'
         | (Some e, st') \<Rightarrow> st'\<lparr>script_events := script_events st' @ [FileError e]\<rparr>))"

definition script_main ::
  "tokenizer \<Rightarrow> generation_service \<Rightarrow> control_df \<Rightarrow> (int64 \<times> target_row list) list \<Rightarrow>
   script_state" where
  "script_main tok svc control_file files =
     foldl (script_file tok svc (script_control_df files control_file))
       \<lparr>script_results = [], script_events = []\<rparr> files"

text \<open>
  \<open>_process_file_core_translation\<close>: the loop over the valid rows from the initial
  counters; an exception is logged and raised again.
\<close>

definition process_file_core_translation ::
  "tokenizer \<Rightarrow> generation_service \<Rightarrow> translation_config \<Rightarrow> control_df \<Rightarrow> int64 \<Rightarrow>
   target_row list \<Rightarrow> py_error + server_state" where
  "process_file_core_translation tok svc cfg df volume_no target_df =
     (case run_rows (server_row tok svc cfg df volume_no) (valid_rows target_df)
             \<lparr>translation_results = [], fallback_used = False, actual_volume_used = volume_no,
              fallback_level1_count = 0, fallback_level2_count = 0, events = []\<rparr> of
        (None, st) \<Rightarrow> Inr st
      | (Some e, _) \<Rightarrow> Inl e)"

datatype file_status = StatusSuccess | StatusWarning | StatusError

record file_result =
  status :: file_status
  file_translation_results :: "translation_record list"

text \<open>
  \<open>process_file_translation_for_merge\<close> once the sheet is read: an exception of the
  core turns into a result of status 'error' with no translations.
\<close>

definition process_file_translation_for_merge ::
  "tokenizer \<Rightarrow> generation_service \<Rightarrow> translation_config \<Rightarrow> control_df \<Rightarrow>
   int64 \<times> target_row list \<Rightarrow> file_result" where
  "process_file_translation_for_merge tok svc cfg df file =
     (case file of (volume_no, target_df) \<Rightarrow>
        (case process_file_core_translation tok svc cfg df volume_no target_df of
           Inl e \<Rightarrow> \<lparr>status = StatusError, file_translation_results = []\<rparr>
         | Inr st \<Rightarrow>
             \<lparr>status = (if fallback_used st then StatusWarning else StatusSuccess),
              file_translation_results = translation_results st\<rparr>))"

text \<open>
  \<open>process_all_files\<close>: the files one after the other; the translations of the files
  that did not fail are merged and the failed files counted.
\<close>

record batch_state =
  all_translation_results :: "translation_record list"
  files_processed :: nat
  warning_count :: nat
  error_count :: nat

definition batch_step ::
  "tokenizer \<Rightarrow> generation_service \<Rightarrow> translation_config \<Rightarrow> control_df \<Rightarrow> batch_state \<Rightarrow>
   int64 \<times> target_row list \<Rightarrow> batch_state" where
  "batch_step tok svc cfg df b file =
     (let result = process_file_translation_for_merge tok svc cfg df file
      in if status result = StatusSuccess \<or> status result = StatusWarning then
           b\<lparr>all_translation_results :=
               all_translation_results b @ file_translation_results result,
             files_processed := files_processed b + 1,
             warning_count :=
               (if status result = StatusWarning then warning_count b + 1 else warning_count b)\<rparr>
         else b\<lparr>error_count := error_count b + 1\<rparr>)"

definition process_all_files ::
  "tokenizer \<Rightarrow> generation_service \<Rightarrow> translation_config \<Rightarrow> control_df \<Rightarrow>
   (int64 \<times> target_row list) list \<Rightarrow> batch_state" where
  "process_all_files tok svc cfg df files =
     foldl (batch_step tok svc cfg df)
       \<lparr>all_translation_results = [], files_processed = 0, warning_count = 0, error_count = 0\<rparr>
       files"

section \<open>Sample collaborators\<close>

text \<open>
  Small tokenizers on which the budgeter is evaluated below. The first has one token
  per code point. The second puts a begin-of-sequence token 0 in front of the text, as
  \<open>encode\<close> does with its default \<open>add_special_tokens\<close> for tokenizers of the Llama
  family, and drops it on decoding, as \<open>skip_special_tokens=True\<close> asks.
\<close>

definition codepoint_tokenizer :: tokenizer where
  "codepoint_tokenizer = \<lparr>encode = (\<lambda>s. s), decode = (\<lambda>ids. ids)\<rparr>"

definition bos_tokenizer :: tokenizer where
  "bos_tokenizer =
     \<lparr>encode = (\<lambda>s. 0 # map Suc s), decode = (\<lambda>ids. map (\<lambda>t. t - 1) (filter (\<lambda>t. t \<noteq> 0) ids))\<rparr>"

text \<open>A third sample tokenizer, which spends forty tokens on every code point.\<close>

definition forty_tokenizer :: tokenizer where
  "forty_tokenizer =
     \<lparr>encode = (\<lambda>s. concat (map (replicate 40) s)),
      decode = (\<lambda>ids. map (\<lambda>i. ids ! (40 * i)) [0..<length ids div 40])\<rparr>"

text \<open>
  A template that puts the context in brackets before the term, with a sequence limit
  of 4096, and a model whose chat template is the prompt's code points and whose
  answer repeats its input.
\<close>

definition sample_config :: "int \<Rightarrow> translation_config" where
  "sample_config n =
     \<lparr>max_context_tokens = n, max_sequence_length = 4096,
      prompt_template = (\<lambda>c t. [91] @ c @ [93] @ t)\<rparr>"

definition echo_service :: generation_service where
  "echo_service = \<lparr>apply_chat_template = (\<lambda>p. Inr p), generate = (\<lambda>ids. Inr (ids @ ids))\<rparr>"


section \<open>Lemmas on the lookup\<close>

lemma foldl_min_key_props:
  fixes key :: "'a \<Rightarrow> int"
  defines "step \<equiv> (\<lambda>best item. if key item < key best then item else best)"
  shows "foldl step x xs \<in> set (x # xs) \<and> (\<forall>y\<in>set (x # xs). key (foldl step x xs) \<le> key y)"
proof (induction xs rule: rev_induct)
  case Nil
  show ?case by simp
next
  case (snoc z zs)
  then show ?case by (auto simp: step_def)
qed


lemma py_min_key_Inr:
  "xs \<noteq> [] \<Longrightarrow> \<exists>m. py_min_key key xs = Inr m"
  by (cases xs) simp_all

lemma py_min_key_min:
  "py_min_key key xs = Inr m \<Longrightarrow> m \<in> set xs \<and> (\<forall>y\<in>set xs. key m \<le> key y)"
  using foldl_min_key_props[of key] by (cases xs) auto


lemma set_available_volumes: "set (available_volumes df) = no ` set df"
  by (simp add: available_volumes_def unique_def)


lemma available_volumes_Nil: "available_volumes df = [] \<longleftrightarrow> df = []"
  using set_available_volumes[of df] by (metis image_is_empty set_empty)

lemma find_filter_Cons: "find P xs = Some r \<Longrightarrow> \<exists>rest. filter P xs = r # rest"
  by (induction xs) (auto split: if_splits)

lemma find_Some_ex: "\<exists>x\<in>set xs. P x \<Longrightarrow> \<exists>r. find P xs = Some r"
  by (induction xs) auto

lemma find_Some_mem: "find P xs = Some r \<Longrightarrow> r \<in> set xs \<and> P r"
  by (induction xs) (auto split: if_splits)

lemma nearest_fallback_find:
  "find (\<lambda>r. no r = nv) df = Some r \<Longrightarrow>
   nearest_fallback df nv = Some \<lparr>usedFallbackLevel = 2, actualVolumeUsed = nv,
     actualSectionUsed = section_col r, contextParagraph = disease_content r\<rparr>"
  using find_filter_Cons[of "\<lambda>r. no r = nv" df r] by (auto simp: nearest_fallback_def)

lemma py_slice_to_nonneg: "0 \<le> n \<Longrightarrow> py_slice_to xs n = take (nat n) xs"
  by (simp add: py_slice_to_def)

lemma sint_sub_no_overflow:
  fixes a b :: int64
  assumes "\<bar>sint a - sint b\<bar> < 2 ^ 63"
  shows "sint (a - b) = sint a - sint b"
proof -
  have "sint (a - b) = signed_take_bit 63 (sint a - sint b)"
    by (simp add: sint_word_ariths)
  also have "\<dots> = sint a - sint b"
    using assms by (intro signed_take_bit_int_eq_self) auto
  finally show ?thesis .
qed

lemma sint_neg_no_overflow:
  fixes d :: int64
  assumes "\<bar>sint d\<bar> < 2 ^ 63"
  shows "sint (- d) = - sint d"
proof -
  have "sint (- d) = signed_take_bit 63 (- sint d)"
    by (simp add: sint_word_ariths)
  also have "\<dots> = - sint d"
    using assms by (intro signed_take_bit_int_eq_self) auto
  finally show ?thesis .
qed

lemma volume_distance_no_overflow:
  assumes "\<bar>sint x - sint v\<bar> < 2 ^ 63"
  shows "volume_distance v x = \<bar>sint x - sint v\<bar>"
  using assms sint_sub_no_overflow[OF assms] sint_neg_no_overflow[of "x - v"]
  by (auto simp: volume_distance_def int64_abs_def)

lemma resolve_exact:
  assumes "find (\<lambda>r. no r = volume_no \<and> section_col r = sec) df = Some r"
  shows "resolve_server df volume_no sec =
           Inr (Some \<lparr>usedFallbackLevel = 0, actualVolumeUsed = volume_no,
                       actualSectionUsed = sec, contextParagraph = disease_content r\<rparr>)"
    and "resolve_script df volume_no sec =
           Inr (Some \<lparr>usedFallbackLevel = 0, actualVolumeUsed = volume_no,
                       actualSectionUsed = sec, contextParagraph = disease_content r\<rparr>)"
proof -
  obtain rest where "filter (\<lambda>r. no r = volume_no \<and> section_col r = sec) df = r # rest"
    using find_filter_Cons[OF assms] by blast
  then show "resolve_server df volume_no sec =
           Inr (Some \<lparr>usedFallbackLevel = 0, actualVolumeUsed = volume_no,
                       actualSectionUsed = sec, contextParagraph = disease_content r\<rparr>)"
    and "resolve_script df volume_no sec =
           Inr (Some \<lparr>usedFallbackLevel = 0, actualVolumeUsed = volume_no,
                       actualSectionUsed = sec, contextParagraph = disease_content r\<rparr>)"
    by (simp_all add: resolve_script_def resolve_server_def)
qed

lemma resolve_same_volume:
  assumes "volume_no \<in> no ` set df"
    and "\<not> (\<exists>r\<in>set df. no r = volume_no \<and> section_col r = sec)"
  shows "\<exists>r. find (\<lambda>r. no r = volume_no) df = Some r \<and>
           resolve_server df volume_no sec =
             Inr (Some \<lparr>usedFallbackLevel = 1, actualVolumeUsed = volume_no,
                         actualSectionUsed = section_col r,
                         contextParagraph = disease_content r\<rparr>) \<and>
           resolve_script df volume_no sec =
             Inr (Some \<lparr>usedFallbackLevel = 1, actualVolumeUsed = volume_no,
                         actualSectionUsed = section_col r,
                         contextParagraph = disease_content r\<rparr>)"
proof -
  have none: "filter (\<lambda>r. no r = volume_no \<and> section_col r = sec) df = []"
    using assms(2) by (auto simp: filter_empty_conv)
  obtain r where r: "find (\<lambda>r. no r = volume_no) df = Some r"
    using find_Some_ex[of df "\<lambda>r. no r = volume_no"] assms(1) by auto
  obtain rest where "filter (\<lambda>r. no r = volume_no) df = r # rest"
    using find_filter_Cons[OF r] by blast
  then show ?thesis
    using none r by (simp add: resolve_script_def resolve_server_def)
qed

lemma nearest_volume_lookup:
  assumes "df \<noteq> []" and "volume_no \<notin> no ` set df"
    and "\<forall>r\<in>set df. \<bar>sint (no r) - sint volume_no\<bar> < 2 ^ 63"
  shows "\<exists>nv r. nearest_volume df volume_no = Inr nv \<and>
           nv \<in> no ` set df \<and>
           (\<forall>r'\<in>set df. \<bar>sint nv - sint volume_no\<bar> \<le> \<bar>sint (no r') - sint volume_no\<bar>) \<and>
           find (\<lambda>r. no r = nv) df = Some r \<and>
           resolve_server df volume_no sec =
             Inr (Some \<lparr>usedFallbackLevel = 2, actualVolumeUsed = nv,
                         actualSectionUsed = section_col r,
                         contextParagraph = disease_content r\<rparr>) \<and>
           resolve_script df volume_no sec =
             Inr (Some \<lparr>usedFallbackLevel = 2, actualVolumeUsed = nv,
                         actualSectionUsed = section_col r,
                         contextParagraph = disease_content r\<rparr>)"
proof -
  have ne: "available_volumes df \<noteq> []"
    using assms(1) by (simp add: available_volumes_Nil)
  then obtain nv where nv: "nearest_volume df volume_no = Inr nv"
    unfolding nearest_volume_def using py_min_key_Inr by blast
  have mem: "nv \<in> no ` set df"
    and mn0: "\<forall>y\<in>no ` set df. volume_distance volume_no nv \<le> volume_distance volume_no y"
    using py_min_key_min[OF nv[unfolded nearest_volume_def]]
    by (simp_all add: set_available_volumes)
  have dist: "\<forall>y\<in>no ` set df. volume_distance volume_no y = \<bar>sint y - sint volume_no\<bar>"
    using assms(3) volume_distance_no_overflow by auto
  have mn: "\<forall>r'\<in>set df. \<bar>sint nv - sint volume_no\<bar> \<le> \<bar>sint (no r') - sint volume_no\<bar>"
    using mn0 dist mem by auto
  obtain r where r: "find (\<lambda>r. no r = nv) df = Some r"
    using find_Some_ex[of df "\<lambda>r. no r = nv"] mem by auto
  have f1: "filter (\<lambda>r. no r = volume_no \<and> section_col r = sec) df = []"
    using assms(2) by (auto simp: filter_empty_conv)
  have f2: "filter (\<lambda>r. no r = volume_no) df = []"
    using assms(2) by (auto simp: filter_empty_conv)
  have "resolve_script df volume_no sec = Inr (nearest_fallback df nv)"
    using f1 f2 ne nv by (simp add: resolve_script_def)
  moreover have "resolve_server df volume_no sec = Inr (nearest_fallback df nv)"
    using f1 f2 nv by (simp add: resolve_server_def)
  ultimately show ?thesis
    using nv mem mn r nearest_fallback_find[OF r] by auto
qed


lemma script_control_df_filter:
  assumes "volume_no \<in> set (map fst files)"
  shows "filter (\<lambda>r. no r = volume_no \<and> Q r) (script_control_df files control_file) =
         filter (\<lambda>r. no r = volume_no \<and> Q r) control_file"
  using assms by (induction control_file) (auto simp: script_control_df_def)

lemma script_control_df_resolve:
  assumes "volume_no \<in> set (map fst files)" and "volume_no \<in> no ` set control_file"
  shows "resolve_script (script_control_df files control_file) volume_no sec =
         resolve_script control_file volume_no sec"
proof -
  have a: "filter (\<lambda>r. no r = volume_no \<and> section_col r = sec) (script_control_df files control_file) =
           filter (\<lambda>r. no r = volume_no \<and> section_col r = sec) control_file"
    by (rule script_control_df_filter[OF assms(1)])
  have b: "filter (\<lambda>r. no r = volume_no) (script_control_df files control_file) =
           filter (\<lambda>r. no r = volume_no) control_file"
    using script_control_df_filter[OF assms(1), of "\<lambda>r. True" control_file] by simp
  have c: "filter (\<lambda>r. no r = volume_no) control_file \<noteq> []"
    using assms(2) by (auto simp: filter_empty_conv)
  show ?thesis
    using c by (simp add: resolve_script_def a b split: list.splits)
qed

lemma resolve_server_empty_table: "resolve_server [] volume_no sec = Inl ValueError"
  by (simp add: resolve_server_def nearest_volume_def available_volumes_def unique_def)

lemma resolve_script_empty_table: "resolve_script [] volume_no sec = Inr None"
  by (simp add: resolve_script_def available_volumes_def unique_def)

section \<open>Lemmas on the processing of a task\<close>

lemma execute_reports:
  assumes "e \<in> set (fst (execute_translation_prompt tok svc limit failure p))"
  shows "(\<exists>n. e = SequenceLengthWarning n limit \<and> limit < n) \<or> (\<exists>m. e = GenerationError m)"
  using assms
  by (auto simp: execute_translation_prompt_def Let_def split: sum.splits if_splits)

lemma truncation_events_Some: "truncation_events (Some (a, b)) = [TruncationWarning a b]"
  by (simp add: truncation_events_def)

lemma truncation_events_cases:
  "e \<in> set (truncation_events w) \<Longrightarrow> \<exists>a b. e = TruncationWarning a b"
  by (auto simp: truncation_events_def split: option.splits)

lemma note_fallback_results [simp]:
  "translation_results (note_fallback res st) = translation_results st"
  by (simp add: note_fallback_def)


lemma note_fallback_level0: "usedFallbackLevel res = 0 \<Longrightarrow> note_fallback res st = st"
  by (simp add: note_fallback_def)

lemma note_fallback_level1:
  "usedFallbackLevel res = 1 \<Longrightarrow>
   note_fallback res st =
     st\<lparr>fallback_used := True, fallback_level1_count := fallback_level1_count st + 1,
        events := events st @ [FallbackWarning 1 (actualVolumeUsed res) (actualSectionUsed res)]\<rparr>"
  by (simp add: note_fallback_def)

lemma note_fallback_level2:
  "usedFallbackLevel res = 2 \<Longrightarrow>
   note_fallback res st =
     st\<lparr>actual_volume_used := actualVolumeUsed res, fallback_used := True,
        fallback_level2_count := fallback_level2_count st + 1,
        events := events st @ [FallbackWarning 2 (actualVolumeUsed res) (actualSectionUsed res)]\<rparr>"
  by (simp add: note_fallback_def)

lemma server_translate_fields:
  "translation_results (server_translate tok svc cfg volume_no sec trm c st) =
     translation_results st @
       [\<lparr>col_volume = volume_no, col_section = sec, col_original_text = trm,
         col_translation = snd (server_execute_translation_prompt tok svc cfg
           (prompt_template cfg
              (snd (truncate_context_if_needed tok (prompt_template cfg [])
                      (max_context_tokens cfg) c trm)) trm))\<rparr>]"
  "events (server_translate tok svc cfg volume_no sec trm c st) =
     events st @ [BudgeterCall c trm] @
       truncation_events (fst (truncate_context_if_needed tok (prompt_template cfg [])
                      (max_context_tokens cfg) c trm)) @
       [GenerateCall (prompt_template cfg
              (snd (truncate_context_if_needed tok (prompt_template cfg [])
                      (max_context_tokens cfg) c trm)) trm)] @
       fst (server_execute_translation_prompt tok svc cfg
           (prompt_template cfg
              (snd (truncate_context_if_needed tok (prompt_template cfg [])
                      (max_context_tokens cfg) c trm)) trm))"
  "fallback_used (server_translate tok svc cfg volume_no sec trm c st) = fallback_used st"
  "actual_volume_used (server_translate tok svc cfg volume_no sec trm c st) = actual_volume_used st"
  "fallback_level1_count (server_translate tok svc cfg volume_no sec trm c st) =
     fallback_level1_count st"
  "fallback_level2_count (server_translate tok svc cfg volume_no sec trm c st) =
     fallback_level2_count st"
  by (simp_all add: server_translate_def Let_def split: prod.splits)

lemma script_translate_fields:
  "script_results (script_translate tok svc volume_no sec trm used actual c st) =
     script_results st @
       [\<lparr>col_volume = volume_no, col_section = sec, col_original_text = trm,
         col_translation = snd (script_execute_translation_prompt tok svc
           (script_full_prompt
              (snd (truncate_context_if_needed tok script_base_prompt script_max_tokens c trm))
              trm)),
         col_fallback_used = used,
         col_actual_section = (if used then actual else sec)\<rparr>]"
  "script_events (script_translate tok svc volume_no sec trm used actual c st) =
     script_events st @ [BudgeterCall c trm] @
       truncation_events (fst (truncate_context_if_needed tok script_base_prompt
                                 script_max_tokens c trm)) @
       [GenerateCall (script_full_prompt
              (snd (truncate_context_if_needed tok script_base_prompt script_max_tokens c trm))
              trm)] @
       fst (script_execute_translation_prompt tok svc
           (script_full_prompt
              (snd (truncate_context_if_needed tok script_base_prompt script_max_tokens c trm))
              trm))"
  by (simp_all add: script_translate_def Let_def split: prod.splits)

lemma server_row_some:
  assumes "strip (remove_leading trm0) \<noteq> []" and "strip sec \<noteq> []"
    and "resolve_server df volume_no sec = Inr (Some res)"
    and "contextParagraph res = Some c"
  shows "server_row tok svc cfg df volume_no (trm0, sec) st =
     Inr (server_translate tok svc cfg volume_no sec (remove_leading trm0) c (note_fallback res st))"
  using assms by (simp add: server_row_def Let_def)

lemma server_row_none:
  assumes "strip (remove_leading trm0) \<noteq> []" and "strip sec \<noteq> []"
    and "resolve_server df volume_no sec = Inr (Some res)"
    and "contextParagraph res = None"
  shows "server_row tok svc cfg df volume_no (trm0, sec) st =
     Inr ((note_fallback res st)\<lparr>events := events (note_fallback res st) @ [EmptyContextWarning]\<rparr>)"
  using assms by (simp add: server_row_def Let_def)

lemma script_row_some:
  assumes "strip trm \<noteq> []" and "strip sec \<noteq> []"
    and "resolve_script df volume_no sec = Inr (Some res)"
    and "contextParagraph res = Some c"
  shows "script_row tok svc df volume_no (trm, sec) st =
     Inr (script_translate tok svc volume_no sec trm (usedFallbackLevel res \<noteq> 0)
            (actualSectionUsed res) c
            (st\<lparr>script_events := script_events st @
               (if usedFallbackLevel res \<noteq> 0
                then [FallbackWarning (usedFallbackLevel res) (actualVolumeUsed res)
                        (actualSectionUsed res)]
                else [])\<rparr>))"
  using assms by (simp add: script_row_def Let_def)

lemma script_row_none:
  assumes "strip trm \<noteq> []" and "strip sec \<noteq> []"
    and "resolve_script df volume_no sec = Inr (Some res)"
    and "contextParagraph res = None"
  shows "script_row tok svc df volume_no (trm, sec) st =
     Inr (st\<lparr>script_events := script_events st @
            (if usedFallbackLevel res \<noteq> 0
             then [FallbackWarning (usedFallbackLevel res) (actualVolumeUsed res)
                     (actualSectionUsed res)]
             else []) @ [EmptyContextWarning]\<rparr>)"
  using assms by (simp add: script_row_def Let_def)






lemma server_tail_events:
  assumes "e \<in> set (truncation_events w @ [GenerateCall p] @
                     fst (server_execute_translation_prompt tok svc cfg p))"
  shows "(\<forall>c t. e \<noteq> BudgeterCall c t) \<and> (\<forall>l v s. e \<noteq> FallbackWarning l v s) \<and>
         e \<noteq> EmptyContextWarning \<and> e \<noteq> NoContextError"
  using assms execute_reports[of e tok svc "max_sequence_length cfg"] truncation_events_cases[of e w]
  by (auto simp: server_execute_translation_prompt_def)

lemma script_tail_events:
  assumes "e \<in> set (truncation_events w @ [GenerateCall p] @
                     fst (script_execute_translation_prompt tok svc p))"
  shows "(\<forall>c t. e \<noteq> BudgeterCall c t) \<and> (\<forall>l v s. e \<noteq> FallbackWarning l v s) \<and>
         e \<noteq> EmptyContextWarning \<and> e \<noteq> NoContextError"
  using assms execute_reports[of e tok svc 4096] truncation_events_cases[of e w]
  by (auto simp: script_execute_translation_prompt_def)

lemma server_row_found:
  assumes "strip (remove_leading trm0) \<noteq> []" and "strip sec \<noteq> []"
    and "resolve_server df volume_no sec = Inr (Some res)"
  shows "\<exists>st'. server_row tok svc cfg df volume_no (trm0, sec) st = Inr st' \<and>
     fallback_used st' = fallback_used (note_fallback res st) \<and>
     fallback_level1_count st' = fallback_level1_count (note_fallback res st) \<and>
     fallback_level2_count st' = fallback_level2_count (note_fallback res st) \<and>
     actual_volume_used st' = actual_volume_used (note_fallback res st) \<and>
     (contextParagraph res = None \<longrightarrow>
        translation_results st' = translation_results st \<and>
        events st' = events (note_fallback res st) @ [EmptyContextWarning]) \<and>
     (\<forall>c. contextParagraph res = Some c \<longrightarrow>
        length (translation_results st') = Suc (length (translation_results st)) \<and>
        col_volume (last (translation_results st')) = volume_no \<and>
        col_section (last (translation_results st')) = sec \<and>
        col_original_text (last (translation_results st')) = remove_leading trm0 \<and>
        (\<exists>tail. events st' =
            events (note_fallback res st) @ BudgeterCall c (remove_leading trm0) # tail \<and>
           (\<forall>e\<in>set tail. (\<forall>c' t. e \<noteq> BudgeterCall c' t) \<and>
              (\<forall>l v s. e \<noteq> FallbackWarning l v s))))"
proof (cases "contextParagraph res")
  case None
  show ?thesis
    unfolding server_row_none[OF assms None] using None by simp
next
  case (Some c)
  show ?thesis
    unfolding server_row_some[OF assms Some]
    using Some server_tail_events[of _ _ _ tok svc cfg]
    by (simp add: server_translate_fields)
qed

lemma script_row_found:
  assumes "strip trm \<noteq> []" and "strip sec \<noteq> []"
    and "resolve_script df volume_no sec = Inr (Some res)"
  shows "\<exists>st'. script_row tok svc df volume_no (trm, sec) st = Inr st' \<and>
     (contextParagraph res = None \<longrightarrow>
        script_results st' = script_results st \<and>
        script_events st' = script_events st @
          (if usedFallbackLevel res \<noteq> 0
           then [FallbackWarning (usedFallbackLevel res) (actualVolumeUsed res)
                   (actualSectionUsed res)]
           else []) @ [EmptyContextWarning]) \<and>
     (\<forall>c. contextParagraph res = Some c \<longrightarrow>
        length (script_results st') = Suc (length (script_results st)) \<and>
        col_volume (last (script_results st')) = volume_no \<and>
        col_section (last (script_results st')) = sec \<and>
        col_original_text (last (script_results st')) = trm \<and>
        col_fallback_used (last (script_results st')) = (usedFallbackLevel res \<noteq> 0) \<and>
        col_actual_section (last (script_results st')) =
          (if usedFallbackLevel res \<noteq> 0 then actualSectionUsed res else sec) \<and>
        (\<exists>tail. script_events st' = script_events st @
            (if usedFallbackLevel res \<noteq> 0
             then [FallbackWarning (usedFallbackLevel res) (actualVolumeUsed res)
                     (actualSectionUsed res)]
             else []) @ BudgeterCall c trm # tail \<and>
           (\<forall>e\<in>set tail. (\<forall>c' t. e \<noteq> BudgeterCall c' t) \<and>
              (\<forall>l v s. e \<noteq> FallbackWarning l v s))))"
proof (cases "contextParagraph res")
  case None
  show ?thesis
    unfolding script_row_none[OF assms None] using None by simp
next
  case (Some c)
  show ?thesis
    unfolding script_row_some[OF assms Some]
    using Some script_tail_events[of _ _ _ tok svc]
    by (simp add: script_translate_fields)
qed

lemma resolve_server_volume_in_table:
  assumes "volume_no \<in> no ` set df"
  shows "\<exists>res. resolve_server df volume_no sec = Inr (Some res) \<and>
           (usedFallbackLevel res = 0 \<or> usedFallbackLevel res = 1)"
proof (cases "\<exists>r\<in>set df. no r = volume_no \<and> section_col r = sec")
  case True
  then obtain r where "find (\<lambda>r. no r = volume_no \<and> section_col r = sec) df = Some r"
    using find_Some_ex[of df "\<lambda>r. no r = volume_no \<and> section_col r = sec"] by blast
  from resolve_exact(1)[OF this] show ?thesis by simp
next
  case False
  from resolve_same_volume[OF assms False] show ?thesis by auto
qed

lemma server_row_volume_in_table:
  assumes "volume_no \<in> no ` set df"
  shows "\<exists>st'. server_row tok svc cfg df volume_no row st = Inr st' \<and>
           actual_volume_used st' = actual_volume_used st"
proof (cases row)
  case (Pair trm0 sec)
  show ?thesis
  proof (cases "strip (remove_leading trm0) = [] \<or> strip sec = []")
    case True
    then show ?thesis using Pair by (auto simp: server_row_def Let_def)
  next
    case False
    then have nb1: "strip (remove_leading trm0) \<noteq> []" and nb2: "strip sec \<noteq> []" by simp_all
    obtain res where rs: "resolve_server df volume_no sec = Inr (Some res)"
      and lv: "usedFallbackLevel res = 0 \<or> usedFallbackLevel res = 1"
      using resolve_server_volume_in_table[OF assms] by blast
    have "actual_volume_used (note_fallback res st) = actual_volume_used st"
      using lv by (auto simp: note_fallback_def)
    then show ?thesis
      using server_row_found[OF nb1 nb2 rs, of tok svc cfg st] Pair by auto
  qed
qed

lemma server_rows_volume_in_table:
  assumes "volume_no \<in> no ` set df"
  shows "\<exists>st'. run_rows (server_row tok svc cfg df volume_no) rows st = (None, st') \<and>
           actual_volume_used st' = actual_volume_used st"
proof (induction rows arbitrary: st)
  case Nil
  show ?case by simp
next
  case (Cons row rows)
  obtain st1 where a: "server_row tok svc cfg df volume_no row st = Inr st1"
    and b: "actual_volume_used st1 = actual_volume_used st"
    using server_row_volume_in_table[OF assms] by blast
  from Cons.IH[of st1] obtain st' where
    "run_rows (server_row tok svc cfg df volume_no) rows st1 = (None, st')"
    "actual_volume_used st' = actual_volume_used st1" by blast
  then show ?case using a b by simp
qed

lemma level2_rows:
  assumes rs: "resolve_server df volume_no sec =
       Inr (Some \<lparr>usedFallbackLevel = 2, actualVolumeUsed = nv,
                   actualSectionUsed = section_col r,
                   contextParagraph = disease_content r\<rparr>)"
    and rc: "resolve_script df volume_no sec =
       Inr (Some \<lparr>usedFallbackLevel = 2, actualVolumeUsed = nv,
                   actualSectionUsed = section_col r,
                   contextParagraph = disease_content r\<rparr>)"
  shows "(strip (remove_leading trm0) \<noteq> [] \<and> strip sec \<noteq> [] \<longrightarrow>
        (\<exists>st'. server_row tok svc cfg df volume_no (trm0, sec) st = Inr st' \<and>
           fallback_used st' \<and>
           fallback_level1_count st' = fallback_level1_count st \<and>
           fallback_level2_count st' = fallback_level2_count st + 1 \<and>
           actual_volume_used st' = nv \<and>
           (\<exists>tail. events st' = events st @ FallbackWarning 2 nv (section_col r) # tail \<and>
              (\<forall>e\<in>set tail. \<forall>l v s. e \<noteq> FallbackWarning l v s)))) \<and>
     (strip trm \<noteq> [] \<and> strip sec \<noteq> [] \<longrightarrow>
        (\<exists>st'. script_row tok svc df volume_no (trm, sec) st2 = Inr st' \<and>
           (\<exists>tail. script_events st' =
              script_events st2 @ FallbackWarning 2 nv (section_col r) # tail \<and>
              (\<forall>e\<in>set tail. \<forall>l v s. e \<noteq> FallbackWarning l v s)) \<and>
           (\<forall>c. disease_content r = Some c \<longrightarrow>
              length (script_results st') = Suc (length (script_results st2)) \<and>
              col_volume (last (script_results st')) = volume_no \<and>
              col_fallback_used (last (script_results st')) \<and>
              col_actual_section (last (script_results st')) = section_col r)))"
proof (intro conjI impI)
  assume nb: "strip (remove_leading trm0) \<noteq> [] \<and> strip sec \<noteq> []"
  then have nb1: "strip (remove_leading trm0) \<noteq> []" and nb2: "strip sec \<noteq> []" by simp_all
  show "\<exists>st'. server_row tok svc cfg df volume_no (trm0, sec) st = Inr st' \<and>
           fallback_used st' \<and>
           fallback_level1_count st' = fallback_level1_count st \<and>
           fallback_level2_count st' = fallback_level2_count st + 1 \<and>
           actual_volume_used st' = nv \<and>
           (\<exists>tail. events st' = events st @ FallbackWarning 2 nv (section_col r) # tail \<and>
              (\<forall>e\<in>set tail. \<forall>l v s. e \<noteq> FallbackWarning l v s))"
  proof (cases "disease_content r")
    case None
    show ?thesis
      using server_row_found[OF nb1 nb2 rs, of tok svc cfg st] None
      by (auto simp: note_fallback_def)
  next
    case (Some c)
    show ?thesis
      using server_row_found[OF nb1 nb2 rs, of tok svc cfg st] Some
      by (fastforce simp: note_fallback_def)
  qed
next
  assume nb: "strip trm \<noteq> [] \<and> strip sec \<noteq> []"
  then have nb1: "strip trm \<noteq> []" and nb2: "strip sec \<noteq> []" by simp_all
  show "\<exists>st'. script_row tok svc df volume_no (trm, sec) st2 = Inr st' \<and>
           (\<exists>tail. script_events st' =
              script_events st2 @ FallbackWarning 2 nv (section_col r) # tail \<and>
              (\<forall>e\<in>set tail. \<forall>l v s. e \<noteq> FallbackWarning l v s)) \<and>
           (\<forall>c. disease_content r = Some c \<longrightarrow>
              length (script_results st') = Suc (length (script_results st2)) \<and>
              col_volume (last (script_results st')) = volume_no \<and>
              col_fallback_used (last (script_results st')) \<and>
              col_actual_section (last (script_results st')) = section_col r)"
  proof (cases "disease_content r")
    case None
    show ?thesis
      using script_row_found[OF nb1 nb2 rc, of tok svc st2] None
      by auto
  next
    case (Some c)
    show ?thesis
      using script_row_found[OF nb1 nb2 rc, of tok svc st2] Some
      by fastforce
  qed
qed

lemma truncate_over_budget_warning:
  assumes "max_tokens < int (length (encode tok (base_prompt trm)))"
  shows "fst (truncate_context_if_needed tok base_prompt max_tokens c trm) =
    Some (int (length (encode tok c)), max_tokens - int (length (encode tok (base_prompt trm))))"
  using assms by (simp add: truncate_context_if_needed_def Let_def)

lemma length_forty: "length (encode forty_tokenizer s) = 40 * length s"
  by (induction s) (simp_all add: forty_tokenizer_def)

lemma length_script_base_prompt: "length (script_base_prompt trm) = 125 + length trm"
  by (simp add: script_base_prompt_def script_prompt_head_def script_prompt_mid_def
      script_prompt_tail_def)



lemma script_row_empty_table:
  "\<exists>st'. script_row tok svc [] volume_no row st = Inr st' \<and>
         script_results st' = script_results st"
  by (cases row) (simp add: script_row_def resolve_script_empty_table)

lemma script_rows_empty_table:
  "\<exists>st'. run_rows (script_row tok svc [] volume_no) rows st = (None, st') \<and>
         script_results st' = script_results st"
proof (induction rows arbitrary: st)
  case Nil
  show ?case by simp
next
  case (Cons r rs)
  obtain st1 where a: "script_row tok svc [] volume_no r st = Inr st1"
    and b: "script_results st1 = script_results st"
    using script_row_empty_table by blast
  from Cons.IH[of st1] obtain st' where
    "run_rows (script_row tok svc [] volume_no) rs st1 = (None, st')"
    "script_results st' = script_results st1" by blast
  then show ?case using a b by simp
qed

section \<open>The context resolver\<close>

text \<open>
  Claim C1, as the programs have it. Both programs take the first row in table order whose
  volume and section equal the task's, whatever its content, at fallback level 0 (the
  script on the control table cut down to the volumes that have a file, which keeps
  that row), and report no fallback. When that row has content, it is what the budgeter
  receives, unchanged, and one record is written; when its content is missing, the task
  is skipped with a warning.
\<close>

theorem exact_match_takes_first_record:
  assumes "find (\<lambda>r. no r = volume_no \<and> section_col r = sec) df = Some r"
  shows
   "resolve_server df volume_no sec =
      Inr (Some \<lparr>usedFallbackLevel = 0, actualVolumeUsed = volume_no,
                  actualSectionUsed = sec, contextParagraph = disease_content r\<rparr>) \<and>
    (volume_no \<in> set (map fst files) \<longrightarrow>
       resolve_script (script_control_df files df) volume_no sec =
         Inr (Some \<lparr>usedFallbackLevel = 0, actualVolumeUsed = volume_no,
                     actualSectionUsed = sec, contextParagraph = disease_content r\<rparr>)) \<and>
    (strip (remove_leading trm0) \<noteq> [] \<and> strip sec \<noteq> [] \<longrightarrow>
       (\<exists>st'. server_row tok svc cfg df volume_no (trm0, sec) st = Inr st' \<and>
          fallback_used st' = fallback_used st \<and>
          fallback_level1_count st' = fallback_level1_count st \<and>
          fallback_level2_count st' = fallback_level2_count st \<and>
          actual_volume_used st' = actual_volume_used st \<and>
          (disease_content r = None \<longrightarrow>
             translation_results st' = translation_results st \<and>
             events st' = events st @ [EmptyContextWarning]) \<and>
          (\<forall>c. disease_content r = Some c \<longrightarrow>
             length (translation_results st') = Suc (length (translation_results st)) \<and>
             (\<exists>tail. events st' = events st @ BudgeterCall c (remove_leading trm0) # tail \<and>
                (\<forall>e\<in>set tail. (\<forall>c' t. e \<noteq> BudgeterCall c' t) \<and>
                   (\<forall>l v s. e \<noteq> FallbackWarning l v s)))))) \<and>
    (volume_no \<in> set (map fst files) \<and> strip trm \<noteq> [] \<and> strip sec \<noteq> [] \<longrightarrow>
       (\<exists>st'. script_row tok svc (script_control_df files df) volume_no (trm, sec) st2 = Inr st' \<and>
          (disease_content r = None \<longrightarrow>
             script_results st' = script_results st2 \<and>
             script_events st' = script_events st2 @ [EmptyContextWarning]) \<and>
          (\<forall>c. disease_content r = Some c \<longrightarrow>
             length (script_results st') = Suc (length (script_results st2)) \<and>
             \<not> col_fallback_used (last (script_results st')) \<and>
             col_actual_section (last (script_results st')) = sec \<and>
             (\<exists>tail. script_events st' = script_events st2 @ BudgeterCall c trm # tail \<and>
                (\<forall>e\<in>set tail. (\<forall>c' t. e \<noteq> BudgeterCall c' t) \<and>
                   (\<forall>l v s. e \<noteq> FallbackWarning l v s))))))"
proof (intro conjI impI)
  let ?res = "\<lparr>usedFallbackLevel = 0, actualVolumeUsed = volume_no,
                actualSectionUsed = sec, contextParagraph = disease_content r\<rparr>"
  show rs: "resolve_server df volume_no sec = Inr (Some ?res)"
    by (rule resolve_exact(1)[OF assms])
  have mem: "volume_no \<in> no ` set df"
    using find_Some_mem[OF assms] by force
  {
    assume f: "volume_no \<in> set (map fst files)"
    show "resolve_script (script_control_df files df) volume_no sec = Inr (Some ?res)"
      using script_control_df_resolve[OF f mem] resolve_exact(2)[OF assms] by simp
  }
  {
    assume nb: "strip (remove_leading trm0) \<noteq> [] \<and> strip sec \<noteq> []"
    then have nb1: "strip (remove_leading trm0) \<noteq> []" and nb2: "strip sec \<noteq> []" by simp_all
    show "\<exists>st'. server_row tok svc cfg df volume_no (trm0, sec) st = Inr st' \<and>
          fallback_used st' = fallback_used st \<and>
          fallback_level1_count st' = fallback_level1_count st \<and>
          fallback_level2_count st' = fallback_level2_count st \<and>
          actual_volume_used st' = actual_volume_used st \<and>
          (disease_content r = None \<longrightarrow>
             translation_results st' = translation_results st \<and>
             events st' = events st @ [EmptyContextWarning]) \<and>
          (\<forall>c. disease_content r = Some c \<longrightarrow>
             length (translation_results st') = Suc (length (translation_results st)) \<and>
             (\<exists>tail. events st' = events st @ BudgeterCall c (remove_leading trm0) # tail \<and>
                (\<forall>e\<in>set tail. (\<forall>c' t. e \<noteq> BudgeterCall c' t) \<and>
                   (\<forall>l v s. e \<noteq> FallbackWarning l v s))))"
      using server_row_found[OF nb1 nb2 rs, of tok svc cfg st]
      by (fastforce simp: note_fallback_level0)
  }
  {
    assume h: "volume_no \<in> set (map fst files) \<and> strip trm \<noteq> [] \<and> strip sec \<noteq> []"
    then have f: "volume_no \<in> set (map fst files)"
      and nb1: "strip trm \<noteq> []" and nb2: "strip sec \<noteq> []" by simp_all
    have rc: "resolve_script (script_control_df files df) volume_no sec = Inr (Some ?res)"
      using script_control_df_resolve[OF f mem] resolve_exact(2)[OF assms] by simp
    show "\<exists>st'. script_row tok svc (script_control_df files df) volume_no (trm, sec) st2 = Inr st' \<and>
          (disease_content r = None \<longrightarrow>
             script_results st' = script_results st2 \<and>
             script_events st' = script_events st2 @ [EmptyContextWarning]) \<and>
          (\<forall>c. disease_content r = Some c \<longrightarrow>
             length (script_results st') = Suc (length (script_results st2)) \<and>
             \<not> col_fallback_used (last (script_results st')) \<and>
             col_actual_section (last (script_results st')) = sec \<and>
             (\<exists>tail. script_events st' = script_events st2 @ BudgeterCall c trm # tail \<and>
                (\<forall>e\<in>set tail. (\<forall>c' t. e \<noteq> BudgeterCall c' t) \<and>
                   (\<forall>l v s. e \<noteq> FallbackWarning l v s))))"
      using script_row_found[OF nb1 nb2 rc, of tok svc st2]
      by fastforce
  }
qed

theorem exact_match_takes_first_record_witness:
  "resolve_server
     [\<lparr>no = 2, section_col = [105], disease_content = Some [97]\<rparr>,
      \<lparr>no = 1, section_col = [105], disease_content = Some [98]\<rparr>,
      \<lparr>no = 1, section_col = [105], disease_content = Some [99]\<rparr>] 1 [105] =
     Inr (Some \<lparr>usedFallbackLevel = 0, actualVolumeUsed = 1, actualSectionUsed = [105],
                 contextParagraph = Some [98]\<rparr>) \<and>
   resolve_script
     (script_control_df [(1, []), (2, [])]
        [\<lparr>no = 2, section_col = [105], disease_content = Some [97]\<rparr>,
         \<lparr>no = 1, section_col = [105], disease_content = Some [98]\<rparr>,
         \<lparr>no = 1, section_col = [105], disease_content = Some [99]\<rparr>]) 1 [105] =
     Inr (Some \<lparr>usedFallbackLevel = 0, actualVolumeUsed = 1, actualSectionUsed = [105],
                 contextParagraph = Some [98]\<rparr>) \<and>
   (\<exists>st'. server_row codepoint_tokenizer echo_service (sample_config 100)
       [\<lparr>no = 2, section_col = [105], disease_content = Some [97]\<rparr>,
        \<lparr>no = 1, section_col = [105], disease_content = Some [98]\<rparr>,
        \<lparr>no = 1, section_col = [105], disease_content = Some [99]\<rparr>] 1 ([120], [105])
       \<lparr>translation_results = [], fallback_used = False, actual_volume_used = 1,
        fallback_level1_count = 0, fallback_level2_count = 0, events = []\<rparr> = Inr st' \<and>
     \<not> fallback_used st' \<and> length (translation_results st') = 1 \<and>
     hd (events st') = BudgeterCall [98] [120]) \<and>
   (\<exists>st'. script_row codepoint_tokenizer echo_service
       (script_control_df [(1, []), (2, [])]
          [\<lparr>no = 2, section_col = [105], disease_content = Some [97]\<rparr>,
           \<lparr>no = 1, section_col = [105], disease_content = Some [98]\<rparr>,
           \<lparr>no = 1, section_col = [105], disease_content = Some [99]\<rparr>]) 1 ([120], [105])
       \<lparr>script_results = [], script_events = []\<rparr> = Inr st' \<and>
     length (script_results st') = 1 \<and> hd (script_events st') = BudgeterCall [98] [120])"
proof -
  let ?df = "[\<lparr>no = 2, section_col = [105], disease_content = Some [97]\<rparr>,
              \<lparr>no = 1, section_col = [105], disease_content = Some [98]\<rparr>,
              \<lparr>no = 1, section_col = [105], disease_content = Some [99]\<rparr>]"
  let ?r = "\<lparr>no = 1, section_col = [105], disease_content = Some [98]\<rparr>"
  let ?files = "[(1, []), (2, [])] :: (int64 \<times> target_row list) list"
  let ?v0 = "\<lparr>translation_results = [], fallback_used = False, actual_volume_used = 1,
        fallback_level1_count = 0, fallback_level2_count = 0, events = []\<rparr>"
  let ?s0 = "\<lparr>script_results = [], script_events = []\<rparr>"
  have hf: "find (\<lambda>r. no r = 1 \<and> section_col r = [105]) ?df = Some ?r" by simp
  have fm: "(1 :: int64) \<in> set (map fst ?files)" by simp
  have s105: "strip [105] \<noteq> []" by (simp add: strip_def is_space_def)
  have s120: "strip [120] \<noteq> []" by (simp add: strip_def is_space_def)
  have rl: "remove_leading [120] = [120]" by (simp add: remove_leading_def startswith_def)
  note T = exact_match_takes_first_record[OF hf, where files = ?files and ?trm0.0 = "[120]"
      and trm = "[120]" and tok = codepoint_tokenizer and svc = echo_service
      and cfg = "sample_config 100" and st = ?v0 and ?st2.0 = ?s0]
  have a: "resolve_server ?df 1 [105] =
     Inr (Some \<lparr>usedFallbackLevel = 0, actualVolumeUsed = 1, actualSectionUsed = [105],
                 contextParagraph = Some [98]\<rparr>)"
    using conjunct1[OF T] by simp
  have b: "resolve_script (script_control_df ?files ?df) 1 [105] =
     Inr (Some \<lparr>usedFallbackLevel = 0, actualVolumeUsed = 1, actualSectionUsed = [105],
                 contextParagraph = Some [98]\<rparr>)"
    using mp[OF conjunct1[OF conjunct2[OF T]] fm] by simp
  have hc: "strip (remove_leading [120]) \<noteq> [] \<and> strip [105] \<noteq> []"
    using s120 s105 by (simp add: rl)
  have c: "\<exists>st'. server_row codepoint_tokenizer echo_service (sample_config 100) ?df 1
       ([120], [105]) ?v0 = Inr st' \<and>
     \<not> fallback_used st' \<and> length (translation_results st') = 1 \<and>
     hd (events st') = BudgeterCall [98] [120]"
    using mp[OF conjunct1[OF conjunct2[OF conjunct2[OF T]]] hc] by (auto simp: rl)
  have hd: "(1 :: int64) \<in> set (map fst ?files) \<and> strip [120] \<noteq> [] \<and> strip [105] \<noteq> []"
    using fm s120 s105 by simp
  have d: "\<exists>st'. script_row codepoint_tokenizer echo_service (script_control_df ?files ?df) 1
       ([120], [105]) ?s0 = Inr st' \<and>
     length (script_results st') = 1 \<and> hd (script_events st') = BudgeterCall [98] [120]"
    using mp[OF conjunct2[OF conjunct2[OF conjunct2[OF T]]] hd] by auto
  show ?thesis using a b c d by blast
qed

text \<open>
  C1 as stated fails where the pair occurs twice and only the later row has content: the
  task matches a row with content, yet the lookup settles on the first row, its context
  paragraph is missing and the task is skipped.
\<close>

theorem exact_match_later_content_counterexample:
  "no \<lparr>no = 1, section_col = [105], disease_content = Some [102, 111, 111]\<rparr> = 1 \<and>
   section_col \<lparr>no = 1, section_col = [105], disease_content = Some [102, 111, 111]\<rparr> = [105] \<and>
   resolve_script
     [\<lparr>no = 1, section_col = [105], disease_content = None\<rparr>,
      \<lparr>no = 1, section_col = [105], disease_content = Some [102, 111, 111]\<rparr>] 1 [105] =
     Inr (Some \<lparr>usedFallbackLevel = 0, actualVolumeUsed = 1, actualSectionUsed = [105],
                 contextParagraph = None\<rparr>) \<and>
   resolve_server
     [\<lparr>no = 1, section_col = [105], disease_content = None\<rparr>,
      \<lparr>no = 1, section_col = [105], disease_content = Some [102, 111, 111]\<rparr>] 1 [105] =
     Inr (Some \<lparr>usedFallbackLevel = 0, actualVolumeUsed = 1, actualSectionUsed = [105],
                 contextParagraph = None\<rparr>) \<and>
   server_row codepoint_tokenizer echo_service (sample_config 100)
     [\<lparr>no = 1, section_col = [105], disease_content = None\<rparr>,
      \<lparr>no = 1, section_col = [105], disease_content = Some [102, 111, 111]\<rparr>] 1 ([120], [105])
     \<lparr>translation_results = [], fallback_used = False, actual_volume_used = 1,
      fallback_level1_count = 0, fallback_level2_count = 0, events = []\<rparr> =
     Inr \<lparr>translation_results = [], fallback_used = False, actual_volume_used = 1,
          fallback_level1_count = 0, fallback_level2_count = 0,
          events = [EmptyContextWarning]\<rparr>"
  by (simp add: resolve_script_def resolve_server_def server_row_def note_fallback_def
      strip_def is_space_def remove_leading_def startswith_def Let_def)

text \<open>
  Claim C2. When the requested volume is in the table but never with the requested
  section, both programs settle on the first row of that volume in table order, at
  fallback level 1 and on the requested volume. The server sets its fallback flag,
  counts one more level-1 fallback, leaves its level-2 count and the volume it reports
  as used untouched, and logs the level-1 warning with that row's section; a file whose
  volume is in the table ends with the requested volume as the volume used. The script
  prints its fallback warning with that section and writes 'fallback used' and that
  section as 'actual section' into the record. None of this depends on a row of the
  volume having content.
\<close>

theorem same_volume_fallback:
  assumes "volume_no \<in> no ` set df"
    and "\<not> (\<exists>r\<in>set df. no r = volume_no \<and> section_col r = sec)"
  shows "\<exists>r. find (\<lambda>r. no r = volume_no) df = Some r \<and>
     resolve_server df volume_no sec =
       Inr (Some \<lparr>usedFallbackLevel = 1, actualVolumeUsed = volume_no,
                   actualSectionUsed = section_col r,
                   contextParagraph = disease_content r\<rparr>) \<and>
     (volume_no \<in> set (map fst files) \<longrightarrow>
        resolve_script (script_control_df files df) volume_no sec =
          Inr (Some \<lparr>usedFallbackLevel = 1, actualVolumeUsed = volume_no,
                      actualSectionUsed = section_col r,
                      contextParagraph = disease_content r\<rparr>)) \<and>
     (strip (remove_leading trm0) \<noteq> [] \<and> strip sec \<noteq> [] \<longrightarrow>
        (\<exists>st'. server_row tok svc cfg df volume_no (trm0, sec) st = Inr st' \<and>
           fallback_used st' \<and>
           fallback_level1_count st' = fallback_level1_count st + 1 \<and>
           fallback_level2_count st' = fallback_level2_count st \<and>
           actual_volume_used st' = actual_volume_used st \<and>
           (\<exists>tail. events st' =
              events st @ FallbackWarning 1 volume_no (section_col r) # tail \<and>
              (\<forall>e\<in>set tail. \<forall>l v s. e \<noteq> FallbackWarning l v s)))) \<and>
     (\<exists>stf. process_file_core_translation tok svc cfg df volume_no target_df = Inr stf \<and>
        actual_volume_used stf = volume_no) \<and>
     (volume_no \<in> set (map fst files) \<and> strip trm \<noteq> [] \<and> strip sec \<noteq> [] \<longrightarrow>
        (\<exists>st'. script_row tok svc (script_control_df files df) volume_no (trm, sec) st2 = Inr st' \<and>
           (\<exists>tail. script_events st' =
              script_events st2 @ FallbackWarning 1 volume_no (section_col r) # tail \<and>
              (\<forall>e\<in>set tail. \<forall>l v s. e \<noteq> FallbackWarning l v s)) \<and>
           (\<forall>c. disease_content r = Some c \<longrightarrow>
              length (script_results st') = Suc (length (script_results st2)) \<and>
              col_volume (last (script_results st')) = volume_no \<and>
              col_fallback_used (last (script_results st')) \<and>
              col_actual_section (last (script_results st')) = section_col r)))"
proof -
  obtain r where fr: "find (\<lambda>r. no r = volume_no) df = Some r"
    and rs: "resolve_server df volume_no sec =
       Inr (Some \<lparr>usedFallbackLevel = 1, actualVolumeUsed = volume_no,
                   actualSectionUsed = section_col r,
                   contextParagraph = disease_content r\<rparr>)"
    and rc0: "resolve_script df volume_no sec =
       Inr (Some \<lparr>usedFallbackLevel = 1, actualVolumeUsed = volume_no,
                   actualSectionUsed = section_col r,
                   contextParagraph = disease_content r\<rparr>)"
    using resolve_same_volume[OF assms] by blast
  let ?res = "\<lparr>usedFallbackLevel = 1, actualVolumeUsed = volume_no,
                actualSectionUsed = section_col r, contextParagraph = disease_content r\<rparr>"
  have rc: "volume_no \<in> set (map fst files) \<Longrightarrow>
      resolve_script (script_control_df files df) volume_no sec = Inr (Some ?res)"
    using script_control_df_resolve[OF _ assms(1)] rc0 by simp
  have sv: "strip (remove_leading trm0) \<noteq> [] \<and> strip sec \<noteq> [] \<longrightarrow>
        (\<exists>st'. server_row tok svc cfg df volume_no (trm0, sec) st = Inr st' \<and>
           fallback_used st' \<and>
           fallback_level1_count st' = fallback_level1_count st + 1 \<and>
           fallback_level2_count st' = fallback_level2_count st \<and>
           actual_volume_used st' = actual_volume_used st \<and>
           (\<exists>tail. events st' =
              events st @ FallbackWarning 1 volume_no (section_col r) # tail \<and>
              (\<forall>e\<in>set tail. \<forall>l v s. e \<noteq> FallbackWarning l v s)))"
  proof
    assume nb: "strip (remove_leading trm0) \<noteq> [] \<and> strip sec \<noteq> []"
    then have nb1: "strip (remove_leading trm0) \<noteq> []" and nb2: "strip sec \<noteq> []" by simp_all
    have nf: "note_fallback ?res st =
        st\<lparr>fallback_used := True, fallback_level1_count := fallback_level1_count st + 1,
           events := events st @ [FallbackWarning 1 volume_no (section_col r)]\<rparr>"
      using note_fallback_level1[of ?res st] by simp
    show "\<exists>st'. server_row tok svc cfg df volume_no (trm0, sec) st = Inr st' \<and>
           fallback_used st' \<and>
           fallback_level1_count st' = fallback_level1_count st + 1 \<and>
           fallback_level2_count st' = fallback_level2_count st \<and>
           actual_volume_used st' = actual_volume_used st \<and>
           (\<exists>tail. events st' =
              events st @ FallbackWarning 1 volume_no (section_col r) # tail \<and>
              (\<forall>e\<in>set tail. \<forall>l v s. e \<noteq> FallbackWarning l v s))"
    proof (cases "disease_content r")
      case None
      show ?thesis
        using server_row_found[OF nb1 nb2 rs, of tok svc cfg st] None
        by (auto simp: note_fallback_def)
    next
      case (Some c)
      show ?thesis
        using server_row_found[OF nb1 nb2 rs, of tok svc cfg st] Some
        by (fastforce simp: note_fallback_def)
    qed
  qed
  have fl: "\<exists>stf. process_file_core_translation tok svc cfg df volume_no target_df = Inr stf \<and>
        actual_volume_used stf = volume_no"
    using server_rows_volume_in_table[OF assms(1), of tok svc cfg "valid_rows target_df"
        "\<lparr>translation_results = [], fallback_used = False, actual_volume_used = volume_no,
          fallback_level1_count = 0, fallback_level2_count = 0, events = []\<rparr>"]
    by (auto simp: process_file_core_translation_def)
  have sc: "volume_no \<in> set (map fst files) \<and> strip trm \<noteq> [] \<and> strip sec \<noteq> [] \<longrightarrow>
        (\<exists>st'. script_row tok svc (script_control_df files df) volume_no (trm, sec) st2 = Inr st' \<and>
           (\<exists>tail. script_events st' =
              script_events st2 @ FallbackWarning 1 volume_no (section_col r) # tail \<and>
              (\<forall>e\<in>set tail. \<forall>l v s. e \<noteq> FallbackWarning l v s)) \<and>
           (\<forall>c. disease_content r = Some c \<longrightarrow>
              length (script_results st') = Suc (length (script_results st2)) \<and>
              col_volume (last (script_results st')) = volume_no \<and>
              col_fallback_used (last (script_results st')) \<and>
              col_actual_section (last (script_results st')) = section_col r))"
  proof
    assume h: "volume_no \<in> set (map fst files) \<and> strip trm \<noteq> [] \<and> strip sec \<noteq> []"
    then have f: "volume_no \<in> set (map fst files)"
      and nb1: "strip trm \<noteq> []" and nb2: "strip sec \<noteq> []" by simp_all
    show "\<exists>st'. script_row tok svc (script_control_df files df) volume_no (trm, sec) st2 = Inr st' \<and>
           (\<exists>tail. script_events st' =
              script_events st2 @ FallbackWarning 1 volume_no (section_col r) # tail \<and>
              (\<forall>e\<in>set tail. \<forall>l v s. e \<noteq> FallbackWarning l v s)) \<and>
           (\<forall>c. disease_content r = Some c \<longrightarrow>
              length (script_results st') = Suc (length (script_results st2)) \<and>
              col_volume (last (script_results st')) = volume_no \<and>
              col_fallback_used (last (script_results st')) \<and>
              col_actual_section (last (script_results st')) = section_col r)"
    proof (cases "disease_content r")
      case None
      show ?thesis
        using script_row_found[OF nb1 nb2 rc[OF f], of tok svc st2] None
        by auto
    next
      case (Some c)
      show ?thesis
        using script_row_found[OF nb1 nb2 rc[OF f], of tok svc st2] Some
        by fastforce
    qed
  qed
  show ?thesis using fr rs rc sv fl sc by blast
qed

theorem same_volume_fallback_witness:
  "resolve_server
     [\<lparr>no = 2, section_col = [97], disease_content = Some [97]\<rparr>,
      \<lparr>no = 1, section_col = [105], disease_content = Some [98]\<rparr>,
      \<lparr>no = 1, section_col = [106], disease_content = Some [99]\<rparr>] 1 [98] =
     Inr (Some \<lparr>usedFallbackLevel = 1, actualVolumeUsed = 1, actualSectionUsed = [105],
                 contextParagraph = Some [98]\<rparr>) \<and>
   resolve_script
     (script_control_df [(1, []), (2, [])]
        [\<lparr>no = 2, section_col = [97], disease_content = Some [97]\<rparr>,
         \<lparr>no = 1, section_col = [105], disease_content = Some [98]\<rparr>,
         \<lparr>no = 1, section_col = [106], disease_content = Some [99]\<rparr>]) 1 [98] =
     Inr (Some \<lparr>usedFallbackLevel = 1, actualVolumeUsed = 1, actualSectionUsed = [105],
                 contextParagraph = Some [98]\<rparr>) \<and>
   (\<exists>st'. server_row codepoint_tokenizer echo_service (sample_config 100)
       [\<lparr>no = 2, section_col = [97], disease_content = Some [97]\<rparr>,
        \<lparr>no = 1, section_col = [105], disease_content = Some [98]\<rparr>,
        \<lparr>no = 1, section_col = [106], disease_content = Some [99]\<rparr>] 1 ([120], [98])
       \<lparr>translation_results = [], fallback_used = False, actual_volume_used = 1,
        fallback_level1_count = 0, fallback_level2_count = 0, events = []\<rparr> = Inr st' \<and>
     fallback_used st' \<and> fallback_level1_count st' = 1 \<and> fallback_level2_count st' = 0 \<and>
     actual_volume_used st' = 1 \<and> hd (events st') = FallbackWarning 1 1 [105]) \<and>
   (\<exists>stf. process_file_core_translation codepoint_tokenizer echo_service (sample_config 100)
       [\<lparr>no = 2, section_col = [97], disease_content = Some [97]\<rparr>,
        \<lparr>no = 1, section_col = [105], disease_content = Some [98]\<rparr>,
        \<lparr>no = 1, section_col = [106], disease_content = Some [99]\<rparr>] 1
       [\<lparr>disease = Some [120], section_cell = Some [98]\<rparr>] = Inr stf \<and>
     actual_volume_used stf = 1) \<and>
   (\<exists>st'. script_row codepoint_tokenizer echo_service
       (script_control_df [(1, []), (2, [])]
          [\<lparr>no = 2, section_col = [97], disease_content = Some [97]\<rparr>,
           \<lparr>no = 1, section_col = [105], disease_content = Some [98]\<rparr>,
           \<lparr>no = 1, section_col = [106], disease_content = Some [99]\<rparr>]) 1 ([120], [98])
       \<lparr>script_results = [], script_events = []\<rparr> = Inr st' \<and>
     hd (script_events st') = FallbackWarning 1 1 [105] \<and>
     col_fallback_used (last (script_results st')) \<and>
     col_actual_section (last (script_results st')) = [105])"
proof -
  let ?df = "[\<lparr>no = 2, section_col = [97], disease_content = Some [97]\<rparr>,
              \<lparr>no = 1, section_col = [105], disease_content = Some [98]\<rparr>,
              \<lparr>no = 1, section_col = [106], disease_content = Some [99]\<rparr>]"
  let ?files = "[(1, []), (2, [])] :: (int64 \<times> target_row list) list"
  let ?v0 = "\<lparr>translation_results = [], fallback_used = False, actual_volume_used = 1,
        fallback_level1_count = 0, fallback_level2_count = 0, events = []\<rparr>"
  let ?s0 = "\<lparr>script_results = [], script_events = []\<rparr>"
  have h1: "(1 :: int64) \<in> no ` set ?df" by simp
  have h2: "\<not> (\<exists>r\<in>set ?df. no r = 1 \<and> section_col r = [98])" by simp
  have s98: "strip [98] \<noteq> []" by (simp add: strip_def is_space_def)
  have s120: "strip [120] \<noteq> []" by (simp add: strip_def is_space_def)
  have rl: "remove_leading [120] = [120]" by (simp add: remove_leading_def startswith_def)
  have fm: "(1 :: int64) \<in> set (map fst ?files)" by simp
  note T = same_volume_fallback[OF h1 h2, where files = ?files and ?trm0.0 = "[120]"
      and trm = "[120]" and tok = codepoint_tokenizer and svc = echo_service
      and cfg = "sample_config 100" and st = ?v0 and ?st2.0 = ?s0
      and target_df = "[\<lparr>disease = Some [120], section_cell = Some [98]\<rparr>]"]
  show ?thesis
    using T s98 s120 fm by (auto simp: rl)
qed

text \<open>
  Claim C3, as the programs have it. Volumes are 64-bit integers and the distance to the
  requested volume is computed in 64 bits. Let the table in use (the server's control
  table; the script's control table cut down to the volumes that have a file) be not
  empty, the requested volume be in none of its rows, and no difference between a volume
  of the table and the requested volume overflow. Then both programs are at fallback
  level 2, on a volume of the table that no other volume of the table is closer to the
  requested one, and take the first row of that volume in table order. The server sets
  its fallback flag, counts one more level-2 fallback, records that volume as the volume
  used and logs the level-2 warning with the volume and the row's section; the script
  prints its fallback warning with them and writes 'fallback used' and that section
  into the record.
\<close>

theorem nearest_volume_fallback:
  assumes "df \<noteq> []" and "volume_no \<notin> no ` set df"
    and "\<forall>r\<in>set df. \<bar>sint (no r) - sint volume_no\<bar> < 2 ^ 63"
  shows "\<exists>nv r. nearest_volume df volume_no = Inr nv \<and>
     nv \<in> no ` set df \<and>
     (\<forall>r'\<in>set df. \<bar>sint nv - sint volume_no\<bar> \<le> \<bar>sint (no r') - sint volume_no\<bar>) \<and>
     find (\<lambda>r. no r = nv) df = Some r \<and>
     resolve_server df volume_no sec =
       Inr (Some \<lparr>usedFallbackLevel = 2, actualVolumeUsed = nv,
                   actualSectionUsed = section_col r,
                   contextParagraph = disease_content r\<rparr>) \<and>
     resolve_script df volume_no sec =
       Inr (Some \<lparr>usedFallbackLevel = 2, actualVolumeUsed = nv,
                   actualSectionUsed = section_col r,
                   contextParagraph = disease_content r\<rparr>) \<and>
     (strip (remove_leading trm0) \<noteq> [] \<and> strip sec \<noteq> [] \<longrightarrow>
        (\<exists>st'. server_row tok svc cfg df volume_no (trm0, sec) st = Inr st' \<and>
           fallback_used st' \<and>
           fallback_level1_count st' = fallback_level1_count st \<and>
           fallback_level2_count st' = fallback_level2_count st + 1 \<and>
           actual_volume_used st' = nv \<and>
           (\<exists>tail. events st' = events st @ FallbackWarning 2 nv (section_col r) # tail \<and>
              (\<forall>e\<in>set tail. \<forall>l v s. e \<noteq> FallbackWarning l v s)))) \<and>
     (strip trm \<noteq> [] \<and> strip sec \<noteq> [] \<longrightarrow>
        (\<exists>st'. script_row tok svc df volume_no (trm, sec) st2 = Inr st' \<and>
           (\<exists>tail. script_events st' =
              script_events st2 @ FallbackWarning 2 nv (section_col r) # tail \<and>
              (\<forall>e\<in>set tail. \<forall>l v s. e \<noteq> FallbackWarning l v s)) \<and>
           (\<forall>c. disease_content r = Some c \<longrightarrow>
              length (script_results st') = Suc (length (script_results st2)) \<and>
              col_volume (last (script_results st')) = volume_no \<and>
              col_fallback_used (last (script_results st')) \<and>
              col_actual_section (last (script_results st')) = section_col r)))"
proof -
  obtain nv r where nv: "nearest_volume df volume_no = Inr nv"
    and mem: "nv \<in> no ` set df"
    and mn: "\<forall>r'\<in>set df. \<bar>sint nv - sint volume_no\<bar> \<le> \<bar>sint (no r') - sint volume_no\<bar>"
    and fr: "find (\<lambda>r. no r = nv) df = Some r"
    and rs: "resolve_server df volume_no sec =
       Inr (Some \<lparr>usedFallbackLevel = 2, actualVolumeUsed = nv,
                   actualSectionUsed = section_col r,
                   contextParagraph = disease_content r\<rparr>)"
    and rc: "resolve_script df volume_no sec =
       Inr (Some \<lparr>usedFallbackLevel = 2, actualVolumeUsed = nv,
                   actualSectionUsed = section_col r,
                   contextParagraph = disease_content r\<rparr>)"
    using nearest_volume_lookup[OF assms, of sec] by blast
  show ?thesis
    using nv mem mn fr rs rc level2_rows[OF rs rc, of trm0 tok svc cfg st trm st2]
    by blast
qed

theorem nearest_volume_fallback_witness:
  "nearest_volume
     [\<lparr>no = 7, section_col = [97], disease_content = Some [119]\<rparr>,
      \<lparr>no = 5, section_col = [98], disease_content = Some [120]\<rparr>,
      \<lparr>no = 5, section_col = [99], disease_content = Some [121]\<rparr>,
      \<lparr>no = 1, section_col = [100], disease_content = None\<rparr>] 4 = Inr 5 \<and>
   resolve_server
     [\<lparr>no = 7, section_col = [97], disease_content = Some [119]\<rparr>,
      \<lparr>no = 5, section_col = [98], disease_content = Some [120]\<rparr>,
      \<lparr>no = 5, section_col = [99], disease_content = Some [121]\<rparr>,
      \<lparr>no = 1, section_col = [100], disease_content = None\<rparr>] 4 [122] =
     Inr (Some \<lparr>usedFallbackLevel = 2, actualVolumeUsed = 5, actualSectionUsed = [98],
                 contextParagraph = Some [120]\<rparr>) \<and>
   (\<exists>st'. server_row codepoint_tokenizer echo_service (sample_config 100)
       [\<lparr>no = 7, section_col = [97], disease_content = Some [119]\<rparr>,
        \<lparr>no = 5, section_col = [98], disease_content = Some [120]\<rparr>,
        \<lparr>no = 5, section_col = [99], disease_content = Some [121]\<rparr>,
        \<lparr>no = 1, section_col = [100], disease_content = None\<rparr>] 4 ([120], [122])
       \<lparr>translation_results = [], fallback_used = False, actual_volume_used = 4,
        fallback_level1_count = 0, fallback_level2_count = 0, events = []\<rparr> = Inr st' \<and>
     fallback_used st' \<and> fallback_level1_count st' = 0 \<and> fallback_level2_count st' = 1 \<and>
     actual_volume_used st' = 5 \<and> hd (events st') = FallbackWarning 2 5 [98]) \<and>
   script_control_df [(4, []), (7, []), (1, [])]
     [\<lparr>no = 7, section_col = [97], disease_content = Some [119]\<rparr>,
      \<lparr>no = 5, section_col = [98], disease_content = Some [120]\<rparr>,
      \<lparr>no = 5, section_col = [99], disease_content = Some [121]\<rparr>,
      \<lparr>no = 1, section_col = [100], disease_content = None\<rparr>] =
     [\<lparr>no = 7, section_col = [97], disease_content = Some [119]\<rparr>,
      \<lparr>no = 1, section_col = [100], disease_content = None\<rparr>] \<and>
   (\<exists>st'. script_row codepoint_tokenizer echo_service
       (script_control_df [(4, []), (7, []), (1, [])]
          [\<lparr>no = 7, section_col = [97], disease_content = Some [119]\<rparr>,
           \<lparr>no = 5, section_col = [98], disease_content = Some [120]\<rparr>,
           \<lparr>no = 5, section_col = [99], disease_content = Some [121]\<rparr>,
           \<lparr>no = 1, section_col = [100], disease_content = None\<rparr>]) 4 ([120], [122])
       \<lparr>script_results = [], script_events = []\<rparr> = Inr st' \<and>
     script_results st' = [] \<and>
     script_events st' = [FallbackWarning 2 1 [100], EmptyContextWarning]) \<and>
   (\<exists>st'. script_row codepoint_tokenizer echo_service
       [\<lparr>no = 7, section_col = [97], disease_content = Some [119]\<rparr>,
        \<lparr>no = 5, section_col = [98], disease_content = Some [120]\<rparr>,
        \<lparr>no = 5, section_col = [99], disease_content = Some [121]\<rparr>,
        \<lparr>no = 1, section_col = [100], disease_content = None\<rparr>] 4 ([120], [122])
       \<lparr>script_results = [], script_events = []\<rparr> = Inr st' \<and>
     hd (script_events st') = FallbackWarning 2 5 [98] \<and>
     col_fallback_used (last (script_results st')) \<and>
     col_actual_section (last (script_results st')) = [98])"
proof -
  let ?df = "[\<lparr>no = 7, section_col = [97], disease_content = Some [119]\<rparr>,
              \<lparr>no = 5, section_col = [98], disease_content = Some [120]\<rparr>,
              \<lparr>no = 5, section_col = [99], disease_content = Some [121]\<rparr>,
              \<lparr>no = 1, section_col = [100], disease_content = None\<rparr>]"
  let ?cut = "[\<lparr>no = 7, section_col = [97], disease_content = Some [119]\<rparr>,
               \<lparr>no = 1, section_col = [100], disease_content = None\<rparr>]"
  let ?files = "[(4, []), (7, []), (1, [])] :: (int64 \<times> target_row list) list"
  let ?v0 = "\<lparr>translation_results = [], fallback_used = False, actual_volume_used = 4,
        fallback_level1_count = 0, fallback_level2_count = 0, events = []\<rparr>"
  let ?s0 = "\<lparr>script_results = [], script_events = []\<rparr>"
  have h1: "?df \<noteq> []" by simp
  have h2: "(4 :: int64) \<notin> no ` set ?df" by simp
  have h3: "\<forall>r\<in>set ?df. \<bar>sint (no r) - sint (4 :: int64)\<bar> < 2 ^ 63" by simp
  have cut: "script_control_df ?files ?df = ?cut" by (simp add: script_control_df_def)
  have k1: "?cut \<noteq> []" by simp
  have k2: "(4 :: int64) \<notin> no ` set ?cut" by simp
  have k3: "\<forall>r\<in>set ?cut. \<bar>sint (no r) - sint (4 :: int64)\<bar> < 2 ^ 63" by simp
  have s122: "strip [122] \<noteq> []" by (simp add: strip_def is_space_def)
  have s120: "strip [120] \<noteq> []" by (simp add: strip_def is_space_def)
  have rl: "remove_leading [120] = [120]" by (simp add: remove_leading_def startswith_def)
  have nvv: "nearest_volume ?df 4 = Inr 5"
    by (simp add: nearest_volume_def available_volumes_def unique_def volume_distance_def
        int64_abs_def)
  have nvc: "nearest_volume ?cut 4 = Inr 1"
    by (simp add: nearest_volume_def available_volumes_def unique_def volume_distance_def
        int64_abs_def)
  note T = nearest_volume_fallback[OF h1 h2 h3, where sec = "[122]" and ?trm0.0 = "[120]"
      and trm = "[120]" and tok = codepoint_tokenizer and svc = echo_service
      and cfg = "sample_config 100" and st = ?v0 and ?st2.0 = ?s0]
  note U = nearest_volume_fallback[OF k1 k2 k3, where sec = "[122]" and ?trm0.0 = "[120]"
      and trm = "[120]" and tok = codepoint_tokenizer and svc = echo_service
      and cfg = "sample_config 100" and st = ?v0 and ?st2.0 = ?s0]
  have a: "nearest_volume ?df 4 = Inr 5 \<and>
     resolve_server ?df 4 [122] =
       Inr (Some \<lparr>usedFallbackLevel = 2, actualVolumeUsed = 5, actualSectionUsed = [98],
                   contextParagraph = Some [120]\<rparr>) \<and>
     (\<exists>st'. server_row codepoint_tokenizer echo_service (sample_config 100) ?df 4 ([120], [122])
         ?v0 = Inr st' \<and>
       fallback_used st' \<and> fallback_level1_count st' = 0 \<and> fallback_level2_count st' = 1 \<and>
       actual_volume_used st' = 5 \<and> hd (events st') = FallbackWarning 2 5 [98]) \<and>
     (\<exists>st'. script_row codepoint_tokenizer echo_service ?df 4 ([120], [122]) ?s0 = Inr st' \<and>
       hd (script_events st') = FallbackWarning 2 5 [98] \<and>
       col_fallback_used (last (script_results st')) \<and>
       col_actual_section (last (script_results st')) = [98])"
    using T s122 s120 nvv by (auto simp: rl)
  have b: "\<exists>st'. script_row codepoint_tokenizer echo_service ?cut 4 ([120], [122]) ?s0 = Inr st' \<and>
     script_results st' = [] \<and>
     script_events st' = [FallbackWarning 2 1 [100], EmptyContextWarning]"
    using U s122 s120 nvc
    by (auto simp: script_row_def resolve_script_def nearest_fallback_def available_volumes_def
        unique_def)
  show ?thesis using a b cut by simp
qed

text \<open>
  C3 as stated fails in two ways. With the volumes \<open>- 2 ^ 63 + 2048\<close> and 4000 in the
  table and the request 2048, the difference of the first is \<open>- 2 ^ 63\<close>, whose
  absolute value in 64 bits is negative: the far volume is taken, not volume 4000 at
  distance 1952. And the script, given a control table with one row of volume 5 and a
  file of volume 2 only, looks the task up in an empty frame and skips it.
\<close>

theorem nearest_volume_overflow_counterexample:
  "nearest_volume
     [\<lparr>no = - 9223372036854773760, section_col = [97], disease_content = Some [120]\<rparr>,
      \<lparr>no = 4000, section_col = [98], disease_content = Some [121]\<rparr>] 2048 =
     Inr (- 9223372036854773760) \<and>
   resolve_server
     [\<lparr>no = - 9223372036854773760, section_col = [97], disease_content = Some [120]\<rparr>,
      \<lparr>no = 4000, section_col = [98], disease_content = Some [121]\<rparr>] 2048 [122] =
     Inr (Some \<lparr>usedFallbackLevel = 2, actualVolumeUsed = - 9223372036854773760,
                 actualSectionUsed = [97], contextParagraph = Some [120]\<rparr>) \<and>
   \<bar>sint (4000 :: int64) - sint (2048 :: int64)\<bar> <
     \<bar>sint (- 9223372036854773760 :: int64) - sint (2048 :: int64)\<bar> \<and>
   script_main codepoint_tokenizer echo_service
     [\<lparr>no = 5, section_col = [97], disease_content = Some [98, 97, 114]\<rparr>]
     [(2, [\<lparr>disease = Some [120], section_cell = Some [122]\<rparr>])] =
     \<lparr>script_results = [], script_events = [NoContextError]\<rparr>"
  by (simp add: nearest_volume_def available_volumes_def unique_def volume_distance_def
      int64_abs_def resolve_server_def nearest_fallback_def
      script_main_def script_control_df_def script_file_def script_row_def resolve_script_def
      valid_rows_def List.map_filter_def strip_def is_space_def)




section \<open>The prompt budgeter\<close>

text \<open>
  Claim C6. A context whose token count is at most the budget left by the base prompt is
  returned as it is, and no warning is printed.
\<close>

theorem context_within_budget_unchanged:
  assumes "int (length (encode tok context_paragraph)) \<le>
           max_tokens - int (length (encode tok (base_prompt trm)))"
  shows "truncate_context_if_needed tok base_prompt max_tokens context_paragraph trm =
         (None, context_paragraph)"
  using assms by (simp add: truncate_context_if_needed_def Let_def)

theorem context_within_budget_unchanged_witness:
  "truncate_context_if_needed codepoint_tokenizer (prompt_template (sample_config 20) []) 20
     [102, 111, 111] [120] = (None, [102, 111, 111])"
  using context_within_budget_unchanged
    [of codepoint_tokenizer "[102, 111, 111]" 20 "prompt_template (sample_config 20) []" "[120]"]
  by (simp add: codepoint_tokenizer_def sample_config_def)

text \<open>
  Claim C5, as the programs have it. A context with more tokens than the budget
  \<open>available\<close> (not negative) comes back as the decoding of its first
  \<open>available\<close> tokens. Where encoding that text gives those tokens back, the result
  has exactly \<open>available\<close> tokens and survives a round trip through the tokenizer.
\<close>

theorem context_over_budget_truncated:
  assumes "0 \<le> available"
    and "available = max_tokens - int (length (encode tok (base_prompt trm)))"
    and "available < int (length (encode tok context_paragraph))"
    and "result = snd (truncate_context_if_needed tok base_prompt max_tokens context_paragraph trm)"
  shows "result = decode tok (take (nat available) (encode tok context_paragraph)) \<and>
         (encode tok result = take (nat available) (encode tok context_paragraph) \<longrightarrow>
            int (length (encode tok result)) = available \<and> decode tok (encode tok result) = result)"
proof -
  have r: "result = decode tok (take (nat available) (encode tok context_paragraph))"
    using assms by (simp add: truncate_context_if_needed_def Let_def py_slice_to_nonneg)
  show ?thesis
  proof (intro conjI impI)
    show "result = decode tok (take (nat available) (encode tok context_paragraph))" by (rule r)
  next
    assume e: "encode tok result = take (nat available) (encode tok context_paragraph)"
    then show "int (length (encode tok result)) = available" using assms(1,3) by simp
  next
    assume e: "encode tok result = take (nat available) (encode tok context_paragraph)"
    then show "decode tok (encode tok result) = result" using r by simp
  qed
qed

theorem context_over_budget_truncated_witness:
  "snd (truncate_context_if_needed codepoint_tokenizer (prompt_template (sample_config 20) []) 20
     [1, 2, 3, 4, 5, 6, 7, 8, 9, 10, 11, 12, 13, 14, 15] [1, 2, 3, 4, 5, 6, 7, 8, 9, 10]) =
     [1, 2, 3, 4, 5, 6, 7, 8] \<and>
   int (length (encode codepoint_tokenizer [1, 2, 3, 4, 5, 6, 7, 8])) = 8 \<and>
   decode codepoint_tokenizer (encode codepoint_tokenizer [1, 2, 3, 4, 5, 6, 7, 8]) =
     [1, 2, 3, 4, 5, 6, 7, 8]"
proof -
  let ?ctx = "[1, 2, 3, 4, 5, 6, 7, 8, 9, 10, 11, 12, 13, 14, 15] :: ustring"
  let ?trm = "[1, 2, 3, 4, 5, 6, 7, 8, 9, 10] :: ustring"
  let ?res = "snd (truncate_context_if_needed codepoint_tokenizer
                (prompt_template (sample_config 20) []) 20 ?ctx ?trm)"
  have h1: "(0::int) \<le> 8" by simp
  have h2: "(8::int) = 20 - int (length (encode codepoint_tokenizer
               (prompt_template (sample_config 20) [] ?trm)))"
    by (simp add: codepoint_tokenizer_def sample_config_def)
  have h3: "(8::int) < int (length (encode codepoint_tokenizer ?ctx))"
    by (simp add: codepoint_tokenizer_def)
  have h4: "?res = ?res" by (rule refl)
  have r: "?res = decode codepoint_tokenizer (take (nat 8) (encode codepoint_tokenizer ?ctx))"
    and imp: "encode codepoint_tokenizer ?res = take (nat 8) (encode codepoint_tokenizer ?ctx) \<longrightarrow>
       int (length (encode codepoint_tokenizer ?res)) = 8 \<and>
       decode codepoint_tokenizer (encode codepoint_tokenizer ?res) = ?res"
    using context_over_budget_truncated[OF h1 h2 h3 h4] by blast+
  have t: "take (nat 8) ?ctx = [1, 2, 3, 4, 5, 6, 7, 8]" by code_simp
  have v: "?res = [1, 2, 3, 4, 5, 6, 7, 8]"
    using r t by (simp add: codepoint_tokenizer_def)
  have e: "encode codepoint_tokenizer ?res = take (nat 8) (encode codepoint_tokenizer ?ctx)"
    using v t by (simp add: codepoint_tokenizer_def)
  show ?thesis using imp e v by simp
qed

text \<open>
  C5 as stated fails for a tokenizer that adds a begin-of-sequence token: with a budget
  of 0 the context of two tokens is cut to the empty text, which encodes to one token.
\<close>

theorem context_over_budget_bos_counterexample:
  "int (length (encode bos_tokenizer [97])) = 2 \<and>
   4 - int (length (encode bos_tokenizer (prompt_template (sample_config 4) [] [120]))) = 0 \<and>
   snd (truncate_context_if_needed bos_tokenizer (prompt_template (sample_config 4) []) 4
          [97] [120]) = [] \<and>
   length (encode bos_tokenizer
     (snd (truncate_context_if_needed bos_tokenizer (prompt_template (sample_config 4) []) 4
          [97] [120]))) = 1"
  by (simp add: bos_tokenizer_def sample_config_def truncate_context_if_needed_def
      py_slice_to_def Let_def)

text \<open>
  Claim C4, as the programs have it. When the base prompt alone has more tokens than the
  budget, no task is flagged or skipped for it. The budgeter reports a truncation, with
  the warning it prints for any context that is too long; the prompt is built from the
  budgeter's result and the term; the generation step is called and the record is
  written. What a task reports is then exactly: the fallback warning of its lookup, if
  any, the truncation warning, and what the generation step reports, which is only its
  own warning for a sequence beyond the model's limit or a generation error.
\<close>

theorem base_prompt_over_budget_still_translated:
  "(max_tokens < int (length (encode tok (base_prompt trm))) \<longrightarrow>
      fst (truncate_context_if_needed tok base_prompt max_tokens c trm) =
        Some (int (length (encode tok c)),
              max_tokens - int (length (encode tok (base_prompt trm))))) \<and>
   (script_max_tokens < int (length (encode tok (script_base_prompt trm))) \<and>
    strip trm \<noteq> [] \<and> strip sec \<noteq> [] \<and>
    resolve_script df volume_no sec = Inr (Some res) \<and> contextParagraph res = Some c \<longrightarrow>
      (\<exists>st' full_prompt.
         full_prompt = script_full_prompt
           (snd (truncate_context_if_needed tok script_base_prompt script_max_tokens c trm)) trm \<and>
         script_row tok svc df volume_no (trm, sec) st = Inr st' \<and>
         script_results st' = script_results st @
           [\<lparr>col_volume = volume_no, col_section = sec, col_original_text = trm,
             col_translation = snd (script_execute_translation_prompt tok svc full_prompt),
             col_fallback_used = (usedFallbackLevel res \<noteq> 0),
             col_actual_section =
               (if usedFallbackLevel res \<noteq> 0 then actualSectionUsed res else sec)\<rparr>] \<and>
         script_events st' = script_events st @
           (if usedFallbackLevel res \<noteq> 0
            then [FallbackWarning (usedFallbackLevel res) (actualVolumeUsed res)
                    (actualSectionUsed res)]
            else []) @
           [BudgeterCall c trm,
            TruncationWarning (int (length (encode tok c)))
              (script_max_tokens - int (length (encode tok (script_base_prompt trm)))),
            GenerateCall full_prompt] @
           fst (script_execute_translation_prompt tok svc full_prompt))) \<and>
   (max_context_tokens cfg <
      int (length (encode tok (prompt_template cfg [] (remove_leading trm0)))) \<and>
    strip (remove_leading trm0) \<noteq> [] \<and> strip sec \<noteq> [] \<and>
    resolve_server df volume_no sec = Inr (Some res) \<and> contextParagraph res = Some c \<longrightarrow>
      (\<exists>st' full_prompt.
         full_prompt = prompt_template cfg
           (snd (truncate_context_if_needed tok (prompt_template cfg [])
                   (max_context_tokens cfg) c (remove_leading trm0))) (remove_leading trm0) \<and>
         server_row tok svc cfg df volume_no (trm0, sec) st2 = Inr st' \<and>
         translation_results st' = translation_results st2 @
           [\<lparr>col_volume = volume_no, col_section = sec,
             col_original_text = remove_leading trm0,
             col_translation =
               snd (server_execute_translation_prompt tok svc cfg full_prompt)\<rparr>] \<and>
         events st' = events (note_fallback res st2) @
           [BudgeterCall c (remove_leading trm0),
            TruncationWarning (int (length (encode tok c)))
              (max_context_tokens cfg -
                 int (length (encode tok (prompt_template cfg [] (remove_leading trm0))))),
            GenerateCall full_prompt] @
           fst (server_execute_translation_prompt tok svc cfg full_prompt))) \<and>
   (\<forall>e\<in>set (fst (execute_translation_prompt tok svc limit failure p)).
      (\<exists>n. e = SequenceLengthWarning n limit \<and> limit < n) \<or> (\<exists>m. e = GenerationError m))"
proof (intro conjI impI ballI)
  assume "max_tokens < int (length (encode tok (base_prompt trm)))"
  then show "fst (truncate_context_if_needed tok base_prompt max_tokens c trm) =
        Some (int (length (encode tok c)),
              max_tokens - int (length (encode tok (base_prompt trm))))"
    by (rule truncate_over_budget_warning)
next
  assume h: "script_max_tokens < int (length (encode tok (script_base_prompt trm))) \<and>
    strip trm \<noteq> [] \<and> strip sec \<noteq> [] \<and>
    resolve_script df volume_no sec = Inr (Some res) \<and> contextParagraph res = Some c"
  then have w: "fst (truncate_context_if_needed tok script_base_prompt script_max_tokens c trm) =
      Some (int (length (encode tok c)),
            script_max_tokens - int (length (encode tok (script_base_prompt trm))))"
    using truncate_over_budget_warning by blast
  have r: "strip trm \<noteq> []" "strip sec \<noteq> []"
    "resolve_script df volume_no sec = Inr (Some res)" "contextParagraph res = Some c"
    using h by simp_all
  show "\<exists>st' full_prompt.
         full_prompt = script_full_prompt
           (snd (truncate_context_if_needed tok script_base_prompt script_max_tokens c trm)) trm \<and>
         script_row tok svc df volume_no (trm, sec) st = Inr st' \<and>
         script_results st' = script_results st @
           [\<lparr>col_volume = volume_no, col_section = sec, col_original_text = trm,
             col_translation = snd (script_execute_translation_prompt tok svc full_prompt),
             col_fallback_used = (usedFallbackLevel res \<noteq> 0),
             col_actual_section =
               (if usedFallbackLevel res \<noteq> 0 then actualSectionUsed res else sec)\<rparr>] \<and>
         script_events st' = script_events st @
           (if usedFallbackLevel res \<noteq> 0
            then [FallbackWarning (usedFallbackLevel res) (actualVolumeUsed res)
                    (actualSectionUsed res)]
            else []) @
           [BudgeterCall c trm,
            TruncationWarning (int (length (encode tok c)))
              (script_max_tokens - int (length (encode tok (script_base_prompt trm)))),
            GenerateCall full_prompt] @
           fst (script_execute_translation_prompt tok svc full_prompt)"
    unfolding script_row_some[OF r]
    by (simp add: script_translate_fields w truncation_events_Some)
next
  assume h: "max_context_tokens cfg <
      int (length (encode tok (prompt_template cfg [] (remove_leading trm0)))) \<and>
    strip (remove_leading trm0) \<noteq> [] \<and> strip sec \<noteq> [] \<and>
    resolve_server df volume_no sec = Inr (Some res) \<and> contextParagraph res = Some c"
  then have w: "fst (truncate_context_if_needed tok (prompt_template cfg [])
        (max_context_tokens cfg) c (remove_leading trm0)) =
      Some (int (length (encode tok c)),
            max_context_tokens cfg -
              int (length (encode tok (prompt_template cfg [] (remove_leading trm0)))))"
    using truncate_over_budget_warning[of "max_context_tokens cfg" tok "prompt_template cfg []"]
    by blast
  have r: "strip (remove_leading trm0) \<noteq> []" "strip sec \<noteq> []"
    "resolve_server df volume_no sec = Inr (Some res)" "contextParagraph res = Some c"
    using h by simp_all
  show "\<exists>st' full_prompt.
         full_prompt = prompt_template cfg
           (snd (truncate_context_if_needed tok (prompt_template cfg [])
                   (max_context_tokens cfg) c (remove_leading trm0))) (remove_leading trm0) \<and>
         server_row tok svc cfg df volume_no (trm0, sec) st2 = Inr st' \<and>
         translation_results st' = translation_results st2 @
           [\<lparr>col_volume = volume_no, col_section = sec,
             col_original_text = remove_leading trm0,
             col_translation =
               snd (server_execute_translation_prompt tok svc cfg full_prompt)\<rparr>] \<and>
         events st' = events (note_fallback res st2) @
           [BudgeterCall c (remove_leading trm0),
            TruncationWarning (int (length (encode tok c)))
              (max_context_tokens cfg -
                 int (length (encode tok (prompt_template cfg [] (remove_leading trm0))))),
            GenerateCall full_prompt] @
           fst (server_execute_translation_prompt tok svc cfg full_prompt)"
    unfolding server_row_some[OF r]
    by (simp add: server_translate_fields w truncation_events_Some)
next
  fix e
  assume "e \<in> set (fst (execute_translation_prompt tok svc limit failure p))"
  then show "(\<exists>n. e = SequenceLengthWarning n limit \<and> limit < n) \<or> (\<exists>m. e = GenerationError m)"
    by (rule execute_reports)
qed

theorem base_prompt_over_budget_still_translated_witness:
  "fst (truncate_context_if_needed codepoint_tokenizer (prompt_template (sample_config 10) []) 10
     [1, 2, 3, 4, 5, 6, 7, 8] [101, 102, 103, 104, 105, 106, 107, 108, 109, 110, 111, 112, 113]) =
     Some (8, - 5) \<and>
   (\<exists>st'. script_row forty_tokenizer echo_service
       [\<lparr>no = 1, section_col = [105], disease_content = Some [102, 111, 111]\<rparr>] 1 ([120], [105])
       \<lparr>script_results = [], script_events = []\<rparr> = Inr st' \<and>
     length (script_results st') = 1 \<and>
     take 2 (script_events st') =
       [BudgeterCall [102, 111, 111] [120], TruncationWarning 120 (- 1240)]) \<and>
   (\<exists>st'. server_row codepoint_tokenizer echo_service (sample_config 10)
       [\<lparr>no = 1, section_col = [105], disease_content = Some [1, 2, 3, 4, 5, 6, 7, 8]\<rparr>] 1
       ([101, 102, 103, 104, 105, 106, 107, 108, 109, 110, 111, 112, 113], [105])
       \<lparr>translation_results = [], fallback_used = False, actual_volume_used = 1,
        fallback_level1_count = 0, fallback_level2_count = 0, events = []\<rparr> = Inr st' \<and>
     length (translation_results st') = 1 \<and>
     take 2 (events st') =
       [BudgeterCall [1, 2, 3, 4, 5, 6, 7, 8]
          [101, 102, 103, 104, 105, 106, 107, 108, 109, 110, 111, 112, 113],
        TruncationWarning 8 (- 5)]) \<and>
   fst (execute_translation_prompt codepoint_tokenizer echo_service 4 (\<lambda>msg. [])
          [1, 2, 3, 4, 5]) = [SequenceLengthWarning 5 4]"
proof -
  let ?t13 = "[101, 102, 103, 104, 105, 106, 107, 108, 109, 110, 111, 112, 113] :: ustring"
  let ?c8 = "[1, 2, 3, 4, 5, 6, 7, 8] :: ustring"
  let ?df1 = "[\<lparr>no = 1, section_col = [105], disease_content = Some [102, 111, 111]\<rparr>]"
  let ?df2 = "[\<lparr>no = 1, section_col = [105], disease_content = Some ?c8\<rparr>]"
  let ?res1 = "\<lparr>usedFallbackLevel = 0, actualVolumeUsed = 1, actualSectionUsed = [105],
                contextParagraph = Some [102, 111, 111]\<rparr>"
  let ?res2 = "\<lparr>usedFallbackLevel = 0, actualVolumeUsed = 1, actualSectionUsed = [105],
                contextParagraph = Some ?c8\<rparr>"
  let ?s0 = "\<lparr>script_results = [], script_events = []\<rparr>"
  let ?v0 = "\<lparr>translation_results = [], fallback_used = False, actual_volume_used = 1,
        fallback_level1_count = 0, fallback_level2_count = 0, events = []\<rparr>"
  have rl: "remove_leading ?t13 = ?t13"
    by (simp add: remove_leading_def startswith_def)
  have b2: "int (length (encode codepoint_tokenizer
              (prompt_template (sample_config 10) [] ?t13))) = 15"
    by (simp add: codepoint_tokenizer_def sample_config_def)
  have c2: "int (length (encode codepoint_tokenizer ?c8)) = 8"
    by (simp add: codepoint_tokenizer_def)
  have m: "max_context_tokens (sample_config 10) = 10" by (simp add: sample_config_def)
  have s13: "strip ?t13 \<noteq> []" by (simp add: strip_def is_space_def)
  have s105: "strip [105] \<noteq> []" by (simp add: strip_def is_space_def)
  have s120: "strip [120] \<noteq> []" by (simp add: strip_def is_space_def)
  have r1: "resolve_script ?df1 1 [105] = Inr (Some ?res1)"
    by (simp add: resolve_script_def)
  have r2: "resolve_server ?df2 1 [105] = Inr (Some ?res2)"
    by (simp add: resolve_server_def)
  have b1: "int (length (encode forty_tokenizer (script_base_prompt [120]))) = 5040"
    by (simp add: length_forty length_script_base_prompt)
  have c1: "int (length (encode forty_tokenizer [102, 111, 111])) = 120"
    by (simp add: length_forty)
  have p1: "fst (truncate_context_if_needed codepoint_tokenizer
      (prompt_template (sample_config 10) []) 10 ?c8 ?t13) = Some (8, - 5)"
  proof -
    have h: "10 < int (length (encode codepoint_tokenizer
                (prompt_template (sample_config 10) [] ?t13)))"
      using b2 by simp
    have "fst (truncate_context_if_needed codepoint_tokenizer
        (prompt_template (sample_config 10) []) 10 ?c8 ?t13) =
        Some (int (length (encode codepoint_tokenizer ?c8)),
              10 - int (length (encode codepoint_tokenizer
                      (prompt_template (sample_config 10) [] ?t13))))"
      by (rule mp[OF conjunct1[OF base_prompt_over_budget_still_translated
            [where tok = codepoint_tokenizer and base_prompt = "prompt_template (sample_config 10) []"
               and max_tokens = 10 and trm = ?t13 and c = ?c8]] h])
    then show ?thesis by (simp only: b2 c2) simp
  qed
  have p2: "\<exists>st'. script_row forty_tokenizer echo_service ?df1 1 ([120], [105]) ?s0 = Inr st' \<and>
     length (script_results st') = 1 \<and>
     take 2 (script_events st') =
       [BudgeterCall [102, 111, 111] [120], TruncationWarning 120 (- 1240)]"
  proof -
    have h: "script_max_tokens < int (length (encode forty_tokenizer (script_base_prompt [120]))) \<and>
      strip [120] \<noteq> [] \<and> strip [105] \<noteq> [] \<and>
      resolve_script ?df1 1 [105] = Inr (Some ?res1) \<and>
      contextParagraph ?res1 = Some [102, 111, 111]"
      using b1 s120 s105 r1 by (simp add: script_max_tokens_def)
    note T = mp[OF conjunct1[OF conjunct2[OF base_prompt_over_budget_still_translated
            [where tok = forty_tokenizer and trm = "[120]" and sec = "[105]" and df = ?df1
               and volume_no = 1 and res = ?res1 and c = "[102, 111, 111]"
               and svc = echo_service and st = ?s0]]] h]
    show ?thesis using T by (auto simp: b1 c1 script_max_tokens_def)
  qed
  have p3: "\<exists>st'. server_row codepoint_tokenizer echo_service (sample_config 10) ?df2 1
       (?t13, [105]) ?v0 = Inr st' \<and>
     length (translation_results st') = 1 \<and>
     take 2 (events st') = [BudgeterCall ?c8 ?t13, TruncationWarning 8 (- 5)]"
  proof -
    have h: "max_context_tokens (sample_config 10) <
        int (length (encode codepoint_tokenizer
          (prompt_template (sample_config 10) [] (remove_leading ?t13)))) \<and>
      strip (remove_leading ?t13) \<noteq> [] \<and> strip [105] \<noteq> [] \<and>
      resolve_server ?df2 1 [105] = Inr (Some ?res2) \<and> contextParagraph ?res2 = Some ?c8"
      using b2 s13 s105 r2 m by (simp only: rl) simp
    note T = mp[OF conjunct1[OF conjunct2[OF conjunct2[OF base_prompt_over_budget_still_translated
            [where tok = codepoint_tokenizer and cfg = "sample_config 10" and ?trm0.0 = ?t13
               and sec = "[105]" and df = ?df2 and volume_no = 1 and res = ?res2 and c = ?c8
               and svc = echo_service and ?st2.0 = ?v0]]]] h]
    show ?thesis using T by (auto simp: rl note_fallback_def codepoint_tokenizer_def sample_config_def)
  qed
  have p4: "fst (execute_translation_prompt codepoint_tokenizer echo_service 4
                    (\<lambda>msg. []) [1, 2, 3, 4, 5]) = [SequenceLengthWarning 5 4]"
    by (simp add: execute_translation_prompt_def echo_service_def Let_def)
  show ?thesis using p1 p2 p3 p4 by blast
qed

text \<open>
  C4 as stated fails on the spec's own scenario: a budget of 10 tokens and a base prompt
  of 15. The server calls the model and writes the record; the only report is the
  warning of an ordinary truncation.
\<close>

theorem base_prompt_over_budget_counterexample:
  "server_row codepoint_tokenizer echo_service (sample_config 10)
     [\<lparr>no = 1, section_col = [105], disease_content = Some [1, 2, 3, 4, 5, 6, 7, 8]\<rparr>] 1
     ([101, 102, 103, 104, 105, 106, 107, 108, 109, 110, 111, 112, 113], [105])
     \<lparr>translation_results = [], fallback_used = False, actual_volume_used = 1,
      fallback_level1_count = 0, fallback_level2_count = 0, events = []\<rparr> =
   Inr \<lparr>translation_results =
          [\<lparr>col_volume = 1, col_section = [105],
            col_original_text = [101, 102, 103, 104, 105, 106, 107, 108, 109, 110, 111, 112, 113],
            col_translation = [91, 1, 2, 3, 93, 101, 102, 103, 104, 105, 106, 107, 108, 109,
                               110, 111, 112, 113]\<rparr>],
        fallback_used = False, actual_volume_used = 1,
        fallback_level1_count = 0, fallback_level2_count = 0,
        events = [BudgeterCall [1, 2, 3, 4, 5, 6, 7, 8]
                    [101, 102, 103, 104, 105, 106, 107, 108, 109, 110, 111, 112, 113],
                  TruncationWarning 8 (- 5),
                  GenerateCall [91, 1, 2, 3, 93, 101, 102, 103, 104, 105, 106, 107, 108, 109,
                                110, 111, 112, 113]]\<rparr>"
  by (simp add: server_row_def resolve_server_def note_fallback_def server_translate_def
      server_execute_translation_prompt_def execute_translation_prompt_def
      truncate_context_if_needed_def py_slice_to_def truncation_events_def
      codepoint_tokenizer_def sample_config_def echo_service_def
      strip_def is_space_def remove_leading_def startswith_def Let_def)

section \<open>Tasks that are skipped\<close>




text \<open>
  Claim C8 on an empty control table and a sheet of two tasks. The script skips each
  task with an error message and goes on. In the server \<open>min\<close> raises ValueError
  at the first task, the loop over the tasks is left, and the file ends with status
  'error'.
\<close>

theorem empty_table_server_raises:
  "resolve_script [] 1 [105] = Inr None \<and>
   resolve_server [] 1 [105] = Inl ValueError \<and>
   script_main codepoint_tokenizer echo_service []
     [(1, [\<lparr>disease = Some [120], section_cell = Some [105]\<rparr>,
           \<lparr>disease = Some [121], section_cell = Some [105]\<rparr>])] =
     \<lparr>script_results = [], script_events = [NoContextError, NoContextError]\<rparr> \<and>
   process_file_core_translation codepoint_tokenizer echo_service (sample_config 100) [] 1
     [\<lparr>disease = Some [120], section_cell = Some [105]\<rparr>,
      \<lparr>disease = Some [121], section_cell = Some [105]\<rparr>] = Inl ValueError \<and>
   process_file_translation_for_merge codepoint_tokenizer echo_service (sample_config 100) []
     (1, [\<lparr>disease = Some [120], section_cell = Some [105]\<rparr>,
          \<lparr>disease = Some [121], section_cell = Some [105]\<rparr>]) =
     \<lparr>status = StatusError, file_translation_results = []\<rparr>"
  by (simp add: resolve_script_def resolve_server_def nearest_volume_def available_volumes_def
      unique_def script_main_def script_control_df_def script_file_def script_row_def
      process_file_core_translation_def process_file_translation_for_merge_def
      server_row_def valid_rows_def List.map_filter_def strip_def is_space_def
      remove_leading_def startswith_def Let_def)

section \<open>The leading characters of a term\<close>

text \<open>
  Claim C10. In the server a term that begins with U+6CBB U+7642 loses these two
  characters; otherwise a term that begins with U+6CBB loses this one. Whenever a task
  writes a record, the term after this removal is the one handed to the budgeter, put
  into the prompt that the generation step receives, and written to the original-text
  column.
\<close>

theorem server_translates_stripped_term:
  "remove_leading ([27835, 30274] @ rest) = rest \<and>
   (\<not> startswith (27835 # rest) [27835, 30274] \<longrightarrow> remove_leading (27835 # rest) = rest) \<and>
   (server_row tok svc cfg df volume_no (trm0, sec) st = Inr st' \<and>
    translation_results st' \<noteq> translation_results st \<longrightarrow>
      (\<exists>c truncated_context.
         truncated_context = snd (truncate_context_if_needed tok (prompt_template cfg [])
                                   (max_context_tokens cfg) c (remove_leading trm0)) \<and>
         translation_results st' = translation_results st @
           [\<lparr>col_volume = volume_no, col_section = sec,
             col_original_text = remove_leading trm0,
             col_translation =
               snd (server_execute_translation_prompt tok svc cfg
                      (prompt_template cfg truncated_context (remove_leading trm0)))\<rparr>] \<and>
         BudgeterCall c (remove_leading trm0) \<in> set (events st') \<and>
         GenerateCall (prompt_template cfg truncated_context (remove_leading trm0))
           \<in> set (events st')))"
proof (intro conjI impI)
  show "remove_leading ([27835, 30274] @ rest) = rest"
    by (simp add: remove_leading_def startswith_def)
next
  assume "\<not> startswith (27835 # rest) [27835, 30274]"
  then show "remove_leading (27835 # rest) = rest"
    by (simp add: remove_leading_def startswith_def)
next
  assume h: "server_row tok svc cfg df volume_no (trm0, sec) st = Inr st' \<and>
    translation_results st' \<noteq> translation_results st"
  show "\<exists>c truncated_context.
         truncated_context = snd (truncate_context_if_needed tok (prompt_template cfg [])
                                   (max_context_tokens cfg) c (remove_leading trm0)) \<and>
         translation_results st' = translation_results st @
           [\<lparr>col_volume = volume_no, col_section = sec,
             col_original_text = remove_leading trm0,
             col_translation =
               snd (server_execute_translation_prompt tok svc cfg
                      (prompt_template cfg truncated_context (remove_leading trm0)))\<rparr>] \<and>
         BudgeterCall c (remove_leading trm0) \<in> set (events st') \<and>
         GenerateCall (prompt_template cfg truncated_context (remove_leading trm0))
           \<in> set (events st')"
  proof (cases "strip (remove_leading trm0) = [] \<or> strip sec = []")
    case True
    then have "st' = st" using h by (auto simp: server_row_def Let_def)
    then show ?thesis using h by simp
  next
    case nb: False
    then have nb1: "strip (remove_leading trm0) \<noteq> []" and nb2: "strip sec \<noteq> []" by simp_all
    show ?thesis
    proof (cases "resolve_server df volume_no sec")
      case (Inl err)
      then show ?thesis using h nb by (simp add: server_row_def Let_def)
    next
      case (Inr ro)
      show ?thesis
      proof (cases ro)
        case None
        then have "translation_results st' = translation_results st"
          using h nb Inr by (auto simp: server_row_def Let_def)
        then show ?thesis using h by simp
      next
        case (Some res)
        have rs: "resolve_server df volume_no sec = Inr (Some res)" using Inr Some by simp
        show ?thesis
        proof (cases "contextParagraph res")
          case None
          have "st' = (note_fallback res st)\<lparr>events := events (note_fallback res st) @ [EmptyContextWarning]\<rparr>"
            using server_row_none[OF nb1 nb2 rs None, of tok svc cfg st] h by simp
          then have "translation_results st' = translation_results st" by simp
          then show ?thesis using h by simp
        next
          case (Some c)
          have "st' = server_translate tok svc cfg volume_no sec (remove_leading trm0) c
                        (note_fallback res st)"
            using server_row_some[OF nb1 nb2 rs Some, of tok svc cfg st] h by simp
          then show ?thesis
            by (auto simp: server_translate_fields)
        qed
      qed
    qed
  qed
qed

theorem server_translates_stripped_term_witness:
  "remove_leading [27835, 30274, 120] = [120] \<and>
   remove_leading [27835, 120] = [120] \<and>
   (\<exists>st'. server_row codepoint_tokenizer echo_service (sample_config 100)
       [\<lparr>no = 1, section_col = [105], disease_content = Some [102, 111, 111]\<rparr>] 1
       ([27835, 30274, 120], [105])
       \<lparr>translation_results = [], fallback_used = False, actual_volume_used = 1,
        fallback_level1_count = 0, fallback_level2_count = 0, events = []\<rparr> = Inr st' \<and>
     map col_original_text (translation_results st') = [[120]] \<and>
     BudgeterCall [102, 111, 111] [120] \<in> set (events st'))"
proof -
  let ?dfF = "[\<lparr>no = 1, section_col = [105], disease_content = Some [102, 111, 111]\<rparr>]"
  let ?resF = "\<lparr>usedFallbackLevel = 0, actualVolumeUsed = 1, actualSectionUsed = [105],
                contextParagraph = Some [102, 111, 111]\<rparr>"
  let ?v0 = "\<lparr>translation_results = [], fallback_used = False, actual_volume_used = 1,
        fallback_level1_count = 0, fallback_level2_count = 0, events = []\<rparr>"
  let ?t = "[27835, 30274, 120] :: ustring"
  have a: "remove_leading ([27835, 30274] @ [120]) = [120]"
    by (rule conjunct1[OF server_translates_stripped_term[where rest = "[120]"]])
  have nh: "\<not> startswith (27835 # [120]) [27835, 30274]" by (simp add: startswith_def)
  have b: "remove_leading (27835 # [120]) = [120]"
    by (rule mp[OF conjunct1[OF conjunct2[OF server_translates_stripped_term
          [where rest = "[120]"]]] nh])
  have rl: "remove_leading ?t = [120]" using a by simp
  have s105: "strip [105] \<noteq> []" by (simp add: strip_def is_space_def)
  have s120: "strip (remove_leading ?t) \<noteq> []" by (simp add: rl strip_def is_space_def)
  have rvF: "resolve_server ?dfF 1 [105] = Inr (Some ?resF)" by (simp add: resolve_server_def)
  have cF: "contextParagraph ?resF = Some [102, 111, 111]" by simp
  obtain st4 where st4: "server_row codepoint_tokenizer echo_service (sample_config 100) ?dfF 1
        (?t, [105]) ?v0 = Inr st4"
    and ne: "translation_results st4 \<noteq> translation_results ?v0"
    and e4: "BudgeterCall [102, 111, 111] [120] \<in> set (events st4)"
    using server_row_some[OF s120 s105 rvF cF, of codepoint_tokenizer echo_service
        "sample_config 100" ?v0]
    by (simp add: rl server_translate_fields note_fallback_def)
  have h: "server_row codepoint_tokenizer echo_service (sample_config 100) ?dfF 1
        (?t, [105]) ?v0 = Inr st4 \<and>
      translation_results st4 \<noteq> translation_results ?v0"
    using st4 ne by simp
  note T = mp[OF conjunct2[OF conjunct2[OF server_translates_stripped_term
          [where tok = codepoint_tokenizer and cfg = "sample_config 100" and svc = echo_service
             and df = ?dfF and volume_no = 1 and ?trm0.0 = ?t and sec = "[105]" and st = ?v0
             and st' = st4]]] h]
  have m: "map col_original_text (translation_results st4) = [[120]]"
    using T by (auto simp: rl)
  show ?thesis using a b st4 m e4 by auto
qed

end
